theory Spec2Isabelle
  imports Main
begin

section \<open>Kubernetes resources as the topology code reads them\<close>

text \<open>
  The data-transformation layer of the Knative topology view works on plain JSON
  objects of type \<open>K8sResourceKind\<close>. The records below hold exactly the fields the
  source reads. A field that the source reads defensively (\<open>_.get\<close>, \<open>?.\<close>) is an
  \<open>option\<close>: \<open>None\<close> is JavaScript's \<open>undefined\<close>. The \<open>metadata\<close> object itself is
  destructured without a guard throughout the source (\<open>({ metadata: { uid } })\<close>), so it
  is always present in the model. Strings are byte lists (UTF-8).
\<close>

datatype error = TypeError

record OwnerReference =
  ownerUid :: string

record ObjectMetadata =
  uid :: "string option"
  name :: "string option"
  namespace :: "string option"
  ownerReferences :: "OwnerReference list option"
  partOf :: "string option"
  brokerLabel :: "string option"

record ObjectRef =
  refApiVersion :: "string option"
  refKind :: "string option"
  refName :: "string option"

record SinkSpec =
  ref :: "ObjectRef option"
  uri :: "string option"
  sinkName :: "string option"

record Subscriber =
  subscriberUid :: "string option"

record ResourceSpec =
  sink :: "SinkSpec option"
  sinkUri :: "string option"
  broker :: "string option"
  subscriberRef :: "ObjectRef option"
  channel :: "ObjectRef option"
  subscribableSubscribers :: "Subscriber list option"
  subscribers :: "Subscriber list option"
  otherSpec :: "(string \<times> string) list"

record TrafficData =
  revisionName :: "string option"
  percent :: int

record ResourceStatus =
  traffic :: "TrafficData list option"

record K8sResourceKind =
  apiVersion :: "string option"
  kind :: "string option"
  metadata :: ObjectMetadata
  spec :: "ResourceSpec option"
  status :: "ResourceStatus option"
  nodeTypeTag :: "string option"

text \<open>
  \<open>partOf\<close> is the label \<open>app.kubernetes.io/part-of\<close> and \<open>brokerLabel\<close> the label
  \<open>eventing.knative.dev/broker\<close>; \<open>sinkName\<close> is a name written directly under
  \<open>spec.sink\<close>; \<open>subscriberRef\<close> is \<open>spec.subscriber.ref\<close>;
  \<open>subscribableSubscribers\<close> is \<open>spec.subscribable.subscribers\<close>;
  \<open>otherSpec\<close> stands for every other key of \<open>spec\<close>; \<open>nodeTypeTag\<close> is
  \<open>type.nodeType\<close>, which only the synthesized sink-uri object carries. A traffic
  \<open>percent\<close> is an integer (an int64 in the Knative API), far inside the range where the
  addition of JavaScript numbers is exact.

  A model descriptor (\<open>EventingBrokerModel\<close>, \<open>ServiceModel\<close>, ...) is imported by the
  source from modules outside this fragment; the functions below take the ones they read
  as arguments.
\<close>

record K8sKind =
  apiGroup :: string
  modelApiVersion :: string
  modelKind :: string
  plural :: string

subsection \<open>JavaScript values\<close>

definition truthy :: "string option \<Rightarrow> bool" where
  "truthy s = (case s of None \<Rightarrow> False | Some x \<Rightarrow> x \<noteq> [])"

definition interpolate :: "string option \<Rightarrow> string" where
  "interpolate s = (case s of None \<Rightarrow> ''undefined'' | Some x \<Rightarrow> x)"

definition arrayIncludes :: "string list \<Rightarrow> string option \<Rightarrow> bool" where
  "arrayIncludes xs v = (case v of None \<Rightarrow> False | Some x \<Rightarrow> x \<in> set xs)"

section \<open>Resource resolver\<close>

definition getParentResource ::
  "K8sResourceKind option \<Rightarrow> K8sResourceKind list \<Rightarrow> K8sResourceKind option" where
  "getParentResource resource resources =
     (let parentUids =
            map ownerUid
              (case resource of
                 None \<Rightarrow> []
               | Some r \<Rightarrow> (case ownerReferences (metadata r) of None \<Rightarrow> [] | Some os \<Rightarrow> os))
      in case filter (\<lambda>c. arrayIncludes parentUids (uid (metadata c))) resources of
           [] \<Rightarrow> None
         | resourcesParent # _ \<Rightarrow> Some resourcesParent)"

text \<open>
  \<open>brokerModel\<close> is the descriptor \<open>EventingBrokerModel\<close> of the source.
\<close>

definition isInternalResource :: "K8sKind \<Rightarrow> K8sResourceKind \<Rightarrow> bool" where
  "isInternalResource brokerModel resource =
     (if kind resource \<noteq> Some (modelKind brokerModel)
         \<and> ownerReferences (metadata resource) \<noteq> None
      then True
      else False)"


text \<open>
  Modelled from the spec: \<open>getOwnedResources\<close> (imported from the shared console
  package) is \<open>findOwned\<close>: all candidates whose owner references include the parent's
  uid, in candidate order. A parent without a uid owns nothing.
\<close>

definition ownerUids :: "K8sResourceKind \<Rightarrow> string list" where
  "ownerUids r = (case ownerReferences (metadata r) of None \<Rightarrow> [] | Some os \<Rightarrow> map ownerUid os)"

definition getOwnedResources :: "K8sResourceKind \<Rightarrow> K8sResourceKind list \<Rightarrow> K8sResourceKind list" where
  "getOwnedResources parent candidates =
     (case uid (metadata parent) of
        None \<Rightarrow> []
      | Some u \<Rightarrow> filter (\<lambda>c. u \<in> set (ownerUids c)) candidates)"

subsection \<open>The resource snapshot\<close>

text \<open>
  \<open>TopologyDataResources\<close> maps a category name to the resources of that category;
  a category may be missing. \<open>resources.configurations.data\<close> on a missing category
  throws a \<open>TypeError\<close> in the source: \<open>dataOf\<close> is that dereference.
\<close>

type_synonym TopologyDataResources = "string \<Rightarrow> K8sResourceKind list option"

definition dataOf :: "K8sResourceKind list option \<Rightarrow> error + K8sResourceKind list" where
  "dataOf category = (case category of None \<Rightarrow> Inl TypeError | Some d \<Rightarrow> Inr d)"

fun forEachE :: "('s \<Rightarrow> 'a \<Rightarrow> error + 's) \<Rightarrow> 'a list \<Rightarrow> 's \<Rightarrow> error + 's" where
  "forEachE f [] s = Inr s"
| "forEachE f (x # xs) s = (case f s x of Inl e \<Rightarrow> Inl e | Inr s' \<Rightarrow> forEachE f xs s')"



definition statusTraffic :: "K8sResourceKind \<Rightarrow> TrafficData list option" where
  "statusTraffic resource = (case status resource of None \<Rightarrow> None | Some st \<Rightarrow> traffic st)"

definition trafficOrEmpty :: "K8sResourceKind \<Rightarrow> TrafficData list" where
  "trafficOrEmpty resource = (case statusTraffic resource of None \<Rightarrow> [] | Some ts \<Rightarrow> ts)"

definition filterRevisionsBaseOnTrafficStatus ::
  "K8sResourceKind \<Rightarrow> K8sResourceKind list \<Rightarrow> K8sResourceKind list option" where
  "filterRevisionsBaseOnTrafficStatus resource revisions =
     (case statusTraffic resource of
        None \<Rightarrow> None
      | Some ts \<Rightarrow>
          Some (foldl
                  (\<lambda>acc curr.
                     case List.find (\<lambda>rv. revisionName curr = name (metadata rv)) revisions of
                       Some el \<Rightarrow> acc @ [el]
                     | None \<Rightarrow> acc)
                  [] ts))"

section \<open>Rollup builder\<close>

text \<open>
  An overview item is a JavaScript object whose keys differ from one branch to the
  other; every key is an \<open>option\<close> here, \<open>None\<close> for a key that is absent (or holds
  \<open>undefined\<close>). The keys carry the prefix \<open>item\<close>. Alerts are keyed objects, kept as
  association lists. A replica set (\<open>PodRCData\<close>) is a resource with its pods; a revision
  of the item may carry the pods and the current replica set of its own deployment.
\<close>

record PodRCData =
  rcObj :: K8sResourceKind
  rcPods :: "K8sResourceKind list option"

record RevisionResources =
  revPods :: "K8sResourceKind list"
  revCurrent :: "PodRCData option"

record RevK8sResourceKind =
  revObj :: K8sResourceKind
  revResources :: "RevisionResources option"

record OverviewItem =
  itemObj :: "K8sResourceKind option"
  itemAlerts :: "(string \<times> string) list option"
  itemBuildConfigs :: "K8sResourceKind list option"
  itemCurrent :: "PodRCData option"
  itemIsRollingOut :: "bool option"
  itemPrevious :: "PodRCData option"
  itemPods :: "K8sResourceKind list option"
  itemRoutes :: "K8sResourceKind list option"
  itemServices :: "K8sResourceKind list option"
  itemAssociatedDeployment :: "K8sResourceKind option"
  itemConfigurations :: "K8sResourceKind list option"
  itemRevisions :: "RevK8sResourceKind list option"
  itemKsroutes :: "K8sResourceKind list option"
  itemEventSources :: "K8sResourceKind list option"
  itemEventingsubscription :: "K8sResourceKind list option"
  itemKsservices :: "K8sResourceKind list option"
  itemTriggers :: "K8sResourceKind list option"
  itemDeployments :: "K8sResourceKind list option"

definition emptyItem :: OverviewItem where
  "emptyItem =
     \<lparr>itemObj = None, itemAlerts = None, itemBuildConfigs = None, itemCurrent = None,
      itemIsRollingOut = None, itemPrevious = None, itemPods = None, itemRoutes = None,
      itemServices = None, itemAssociatedDeployment = None, itemConfigurations = None,
      itemRevisions = None, itemKsroutes = None, itemEventSources = None,
      itemEventingsubscription = None, itemKsservices = None, itemTriggers = None,
      itemDeployments = None\<rparr>"

text \<open>
  Object spread \<open>{...a, ...b}\<close>: a key of \<open>b\<close> wins over the same key of \<open>a\<close>.
\<close>

definition orElse :: "'a option \<Rightarrow> 'a option \<Rightarrow> 'a option" where
  "orElse new old = (case new of Some v \<Rightarrow> Some v | None \<Rightarrow> old)"

definition spreadItem :: "OverviewItem \<Rightarrow> OverviewItem \<Rightarrow> OverviewItem" where
  "spreadItem a b =
     \<lparr>itemObj = orElse (itemObj b) (itemObj a),
      itemAlerts = orElse (itemAlerts b) (itemAlerts a),
      itemBuildConfigs = orElse (itemBuildConfigs b) (itemBuildConfigs a),
      itemCurrent = orElse (itemCurrent b) (itemCurrent a),
      itemIsRollingOut = orElse (itemIsRollingOut b) (itemIsRollingOut a),
      itemPrevious = orElse (itemPrevious b) (itemPrevious a),
      itemPods = orElse (itemPods b) (itemPods a),
      itemRoutes = orElse (itemRoutes b) (itemRoutes a),
      itemServices = orElse (itemServices b) (itemServices a),
      itemAssociatedDeployment = orElse (itemAssociatedDeployment b) (itemAssociatedDeployment a),
      itemConfigurations = orElse (itemConfigurations b) (itemConfigurations a),
      itemRevisions = orElse (itemRevisions b) (itemRevisions a),
      itemKsroutes = orElse (itemKsroutes b) (itemKsroutes a),
      itemEventSources = orElse (itemEventSources b) (itemEventSources a),
      itemEventingsubscription = orElse (itemEventingsubscription b) (itemEventingsubscription a),
      itemKsservices = orElse (itemKsservices b) (itemKsservices a),
      itemTriggers = orElse (itemTriggers b) (itemTriggers a),
      itemDeployments = orElse (itemDeployments b) (itemDeployments a)\<rparr>"

definition spreadAlerts :: "(string \<times> string) list \<Rightarrow> (string \<times> string) list \<Rightarrow> (string \<times> string) list" where
  "spreadAlerts a b =
     map (\<lambda>(k, v). (k, case map_of b k of Some w \<Rightarrow> w | None \<Rightarrow> v)) a
     @ filter (\<lambda>(k, v). k \<notin> fst ` set a) b"

text \<open>
  The helpers the rollup imports from the shared console package, the model descriptors
  and the lists of dynamically discovered categories are outside this fragment: they are
  the fields of \<open>Shared\<close>, handed to every function that reads one. An enricher
  (\<open>KnativeUtil\<close>) returns a partial item or \<open>undefined\<close>; it is taken to return, an
  enricher that throws being the caller's concern.
\<close>

record Shared =
  apiVersionForModel :: "K8sKind \<Rightarrow> string"
  getReplicaSetsForResource :: "K8sResourceKind \<Rightarrow> TopologyDataResources \<Rightarrow> PodRCData list"
  getBuildConfigsForResource :: "K8sResourceKind \<Rightarrow> TopologyDataResources \<Rightarrow> K8sResourceKind list"
  getServicesForResource :: "K8sResourceKind \<Rightarrow> TopologyDataResources \<Rightarrow> K8sResourceKind list"
  getRoutesForServices :: "K8sResourceKind list \<Rightarrow> TopologyDataResources \<Rightarrow> K8sResourceKind list"
  getResourcePausedAlert :: "K8sResourceKind \<Rightarrow> (string \<times> string) list"
  getBuildAlerts :: "K8sResourceKind list \<Rightarrow> (string \<times> string) list"
  DeploymentModel :: K8sKind
  PodModel :: K8sKind
  EventingBrokerModel :: K8sKind
  getDynamicEventSourcesModelRefs :: "string list"
  getDynamicChannelModelRefs :: "string list"

type_synonym KnativeUtil = "K8sResourceKind \<Rightarrow> TopologyDataResources \<Rightarrow> OverviewItem option"

definition applyUtils ::
  "KnativeUtil list option \<Rightarrow> K8sResourceKind \<Rightarrow> TopologyDataResources \<Rightarrow> OverviewItem \<Rightarrow> OverviewItem" where
  "applyUtils utils resource resources overviewItem =
     (case utils of
        None \<Rightarrow> overviewItem
      | Some us \<Rightarrow>
          foldl (\<lambda>acc util. case util resource resources of
                              None \<Rightarrow> acc
                            | Some patch \<Rightarrow> spreadItem acc patch)
                overviewItem us)"

definition podsOf :: "PodRCData option \<Rightarrow> K8sResourceKind list" where
  "podsOf rc = (case rc of None \<Rightarrow> [] | Some r \<Rightarrow> (case rcPods r of None \<Rightarrow> [] | Some ps \<Rightarrow> ps))"

definition firstOf :: "'a list \<Rightarrow> 'a option" where
  "firstOf xs = (case xs of [] \<Rightarrow> None | x # _ \<Rightarrow> Some x)"

definition secondOf :: "'a list \<Rightarrow> 'a option" where
  "secondOf xs = (case xs of _ # y # _ \<Rightarrow> Some y | _ \<Rightarrow> None)"

definition deploymentObject :: "Shared \<Rightarrow> K8sResourceKind \<Rightarrow> K8sResourceKind" where
  "deploymentObject ext d =
     d\<lparr>apiVersion := Some (apiVersionForModel ext (DeploymentModel ext)),
       kind := Some (modelKind (DeploymentModel ext))\<rparr>"

definition revisionDeployment ::
  "Shared \<Rightarrow> TopologyDataResources \<Rightarrow> K8sResourceKind \<Rightarrow> RevK8sResourceKind" where
  "revisionDeployment ext resources rv =
     (case resources ''deployments'' of
        None \<Rightarrow> \<lparr>revObj = rv, revResources = None\<rparr>
      | Some deploymentsData \<Rightarrow>
          (case getOwnedResources rv deploymentsData of
             [] \<Rightarrow> \<lparr>revObj = rv, revResources = None\<rparr>
           | d # _ \<Rightarrow>
               (let depObj = deploymentObject ext d;
                    replicaSets = getReplicaSetsForResource ext depObj resources;
                    cur = firstOf replicaSets;
                    prev = secondOf replicaSets
                in \<lparr>revObj = rv,
                    revResources = Some \<lparr>revPods = podsOf cur @ podsOf prev, revCurrent = cur\<rparr>\<rparr>)))"

definition getKnativeServiceData ::
  "Shared \<Rightarrow> K8sResourceKind \<Rightarrow> TopologyDataResources \<Rightarrow> KnativeUtil list option
   \<Rightarrow> error + OverviewItem" where
  "getKnativeServiceData ext resource resources utils =
     (case dataOf (resources ''configurations'') of
        Inl e \<Rightarrow> Inl e
      | Inr configurationsData \<Rightarrow>
          (let cfgs = getOwnedResources resource configurationsData in
           case (case cfgs of
                   [] \<Rightarrow> Inr []
                 | c # _ \<Rightarrow>
                     (case dataOf (resources ''revisions'') of
                        Inl e \<Rightarrow> Inl e
                      | Inr revisionsData \<Rightarrow> Inr (getOwnedResources c revisionsData))) of
             Inl e \<Rightarrow> Inl e
           | Inr revs \<Rightarrow>
               (let revisionsDep = map (revisionDeployment ext resources) revs;
                    allPods =
                      concat (map (\<lambda>r. case revResources r of None \<Rightarrow> [] | Some x \<Rightarrow> revPods x)
                                  revisionsDep);
                    ksroutes =
                      (case resources ''ksroutes'' of
                         None \<Rightarrow> None
                       | Some d \<Rightarrow> Some (getOwnedResources resource d));
                    buildConfigs = getBuildConfigsForResource ext resource resources;
                    overviewItem =
                      emptyItem\<lparr>itemConfigurations := Some cfgs,
                                itemRevisions := Some revisionsDep,
                                itemKsroutes := ksroutes,
                                itemBuildConfigs := Some buildConfigs,
                                itemPods := Some allPods\<rparr>
                in Inr (applyUtils utils resource resources overviewItem))))"

definition createKnativeDeploymentItems ::
  "Shared \<Rightarrow> K8sResourceKind \<Rightarrow> TopologyDataResources \<Rightarrow> KnativeUtil list option
   \<Rightarrow> error + OverviewItem" where
  "createKnativeDeploymentItems ext resource resources utils =
     (case dataOf (resources ''deployments'') of
        Inl e \<Rightarrow> Inl e
      | Inr deploymentsData \<Rightarrow>
          (case getOwnedResources resource deploymentsData of
             d # _ \<Rightarrow>
               (let depObj = deploymentObject ext d;
                    replicaSets = getReplicaSetsForResource ext depObj resources;
                    cur = firstOf replicaSets;
                    prev = secondOf replicaSets;
                    rollingOut = (cur \<noteq> None \<and> prev \<noteq> None);
                    buildConfigs = getBuildConfigsForResource ext depObj resources;
                    svcs = getServicesForResource ext depObj resources;
                    rts = getRoutesForServices ext svcs resources;
                    alerts = spreadAlerts (getResourcePausedAlert ext depObj) (getBuildAlerts ext buildConfigs);
                    overviewItems =
                      emptyItem\<lparr>itemObj := Some resource,
                                itemAlerts := Some alerts,
                                itemBuildConfigs := Some buildConfigs,
                                itemCurrent := cur,
                                itemIsRollingOut := Some rollingOut,
                                itemPrevious := prev,
                                itemPods := Some (podsOf cur @ podsOf prev),
                                itemRoutes := Some rts,
                                itemServices := Some svcs,
                                itemAssociatedDeployment := Some depObj\<rparr>
                in Inr (applyUtils utils resource resources overviewItems))
           | [] \<Rightarrow>
               (case getKnativeServiceData ext resource resources utils of
                  Inl e \<Rightarrow> Inl e
                | Inr knResources \<Rightarrow>
                    Inr (spreadItem
                           (emptyItem\<lparr>itemObj := Some resource,
                                      itemBuildConfigs := Some [],
                                      itemRoutes := Some [],
                                      itemServices := Some []\<rparr>)
                           knResources))))"

section \<open>The graph model\<close>

definition NodeType_EventSource :: string where "NodeType_EventSource = ''event-source''"
definition NodeType_KnService :: string where "NodeType_KnService = ''knative-service''"
definition NodeType_Revision :: string where "NodeType_Revision = ''knative-revision''"
definition NodeType_PubSub :: string where "NodeType_PubSub = ''event-pubsub''"
definition NodeType_SinkUri :: string where "NodeType_SinkUri = ''sink-uri''"

definition EdgeType_Traffic :: string where "EdgeType_Traffic = ''revision-traffic''"
definition EdgeType_EventSource :: string where "EdgeType_EventSource = ''event-source-link''"
definition EdgeType_EventPubSubLink :: string where "EdgeType_EventPubSubLink = ''event-pubsub-link''"

lemmas NodeType_defs =
  NodeType_EventSource_def NodeType_KnService_def NodeType_Revision_def NodeType_PubSub_def
  NodeType_SinkUri_def

lemmas EdgeType_defs = EdgeType_Traffic_def EdgeType_EventSource_def EdgeType_EventPubSubLink_def

datatype EdgeData = Percent int | Connection K8sResourceKind "K8sResourceKind list"

record EdgeModel =
  edgeId :: string
  edgeType :: string
  source :: "string option"
  target :: "string option"
  edgeData :: "EdgeData option"

text \<open>
  \<open>Percent p\<close> is \<open>data: { percent: p }\<close> of a traffic edge; \<open>Connection obj cs\<close> is
  \<open>data: { resources: { obj, connections } }\<close> of a trigger or subscription edge.
\<close>

fun findIndex :: "('a \<Rightarrow> bool) \<Rightarrow> 'a list \<Rightarrow> nat option" where
  "findIndex P [] = None"
| "findIndex P (x # xs) = (if P x then Some 0 else map_option Suc (findIndex P xs))"

text \<open>
  \<open>edges[revisionIndex].data.percent += trafficPercent\<close>: \<open>addPercent\<close>. The list
  holds the edges this function pushed, each with a percent; an edge without one is left
  as it is.
\<close>

definition addPercent :: "EdgeModel \<Rightarrow> int \<Rightarrow> EdgeModel" where
  "addPercent e p =
     e\<lparr>edgeData := (case edgeData e of Some (Percent q) \<Rightarrow> Some (Percent (q + p)) | d \<Rightarrow> d)\<rparr>"

definition resolveRevisionUid :: "K8sResourceKind list \<Rightarrow> TrafficData \<Rightarrow> string option" where
  "resolveRevisionUid revs res =
     (let resname = revisionName res;
          revisionObj = List.find (\<lambda>rv. name (metadata rv) = resname) revs
      in case revisionObj of None \<Rightarrow> None | Some rv \<Rightarrow> uid (metadata rv))"

definition trafficEdgeStep ::
  "string option \<Rightarrow> K8sResourceKind list \<Rightarrow> EdgeModel list \<Rightarrow> TrafficData \<Rightarrow> EdgeModel list" where
  "trafficEdgeStep svcUid revs edges res =
     (let trafficPercent = percent res;
          resUid = resolveRevisionUid revs res
      in if truthy resUid then
           (case findIndex (\<lambda>edge. edgeId edge = interpolate svcUid @ ''_'' @ interpolate resUid) edges of
              Some revisionIndex \<Rightarrow>
                edges[revisionIndex := addPercent (edges ! revisionIndex) trafficPercent]
            | None \<Rightarrow>
                edges @ [\<lparr>edgeId = interpolate svcUid @ ''_'' @ interpolate resUid,
                          edgeType = EdgeType_Traffic,
                          source = svcUid,
                          target = resUid,
                          edgeData = Some (Percent trafficPercent)\<rparr>])
         else edges)"

text \<open>
  The second parameter of \<open>getTrafficTopologyEdgeItems\<close> is destructured (\<open>{ data }\<close>),
  which throws when the category object is missing.
\<close>

definition getTrafficTopologyEdgeItems ::
  "K8sResourceKind \<Rightarrow> K8sResourceKind list option \<Rightarrow> error + EdgeModel list" where
  "getTrafficTopologyEdgeItems resource category =
     (case dataOf category of
        Inl e \<Rightarrow> Inl e
      | Inr revs \<Rightarrow>
          (let trafficSvc = trafficOrEmpty resource
           in Inr (foldl (trafficEdgeStep (uid (metadata resource)) revs) [] trafficSvc)))"

subsection \<open>Reading the spec of a resource\<close>

definition specSink :: "K8sResourceKind \<Rightarrow> SinkSpec option" where
  "specSink r = (case spec r of None \<Rightarrow> None | Some sp \<Rightarrow> sink sp)"

definition specSinkUri :: "K8sResourceKind \<Rightarrow> string option" where
  "specSinkUri r = (case specSink r of None \<Rightarrow> None | Some sk \<Rightarrow> uri sk)"

definition specSinkRef :: "K8sResourceKind \<Rightarrow> ObjectRef option" where
  "specSinkRef r = (case specSink r of None \<Rightarrow> None | Some sk \<Rightarrow> ref sk)"

definition specBroker :: "K8sResourceKind \<Rightarrow> string option" where
  "specBroker r = (case spec r of None \<Rightarrow> None | Some sp \<Rightarrow> broker sp)"

definition specSubscriberRef :: "K8sResourceKind \<Rightarrow> ObjectRef option" where
  "specSubscriberRef r = (case spec r of None \<Rightarrow> None | Some sp \<Rightarrow> subscriberRef sp)"

definition specChannel :: "K8sResourceKind \<Rightarrow> ObjectRef option" where
  "specChannel r = (case spec r of None \<Rightarrow> None | Some sp \<Rightarrow> channel sp)"

definition refNameOf :: "ObjectRef option \<Rightarrow> string option" where
  "refNameOf r = (case r of None \<Rightarrow> None | Some x \<Rightarrow> refName x)"

definition refKindOf :: "ObjectRef option \<Rightarrow> string option" where
  "refKindOf r = (case r of None \<Rightarrow> None | Some x \<Rightarrow> refKind x)"

subsection \<open>Nodes\<close>

text \<open>
  A node carries its id, its type, its resource, its data (a \<open>TopologyDataObject\<close>), the
  ids of its children and the \<open>group\<close> flag. Of the data's own payload (\<open>data.data\<close>) the
  model keeps \<open>sinkUri\<close>, the one key the assembler reads back; the display payload (name,
  url, icon, edit URL, pipeline, build) and the sizes and shapes of
  \<open>getKnNodeModelProps\<close> are left out, but for the \<open>group\<close> flag of a service node.
\<close>

record TopologyDataObject =
  dataId :: "string option"
  dataType :: string
  dataResource :: "K8sResourceKind option"
  dataResources :: OverviewItem
  dataSinkUri :: "string option"

record NodeModel =
  nodeId :: "string option"
  nodeType :: string
  nodeResource :: "K8sResourceKind option"
  nodeData :: "TopologyDataObject option"
  children :: "string option list"
  isGroup :: bool

record NodeModelProps =
  propsGroup :: bool

definition getKnNodeModelProps :: "string \<Rightarrow> NodeModelProps" where
  "getKnNodeModelProps type = \<lparr>propsGroup = (type = NodeType_KnService)\<rparr>"

text \<open>
  Modelled from the spec: \<open>getTopologyNodeItem\<close> and \<open>createTopologyNodeData\<close> (imported
  from the topology package) build a graph node and its data: the id is the resource's
  uid, the type is the tag given, the data embed the overview item, and a group node
  lists the ids of its children.
\<close>

definition getTopologyNodeItem ::
  "K8sResourceKind \<Rightarrow> string \<Rightarrow> TopologyDataObject option \<Rightarrow> NodeModelProps
   \<Rightarrow> string option list \<Rightarrow> NodeModel" where
  "getTopologyNodeItem resource type d nodeProps childIds =
     \<lparr>nodeId = uid (metadata resource), nodeType = type, nodeResource = Some resource,
      nodeData = d, children = childIds, isGroup = propsGroup nodeProps\<rparr>"

definition createTopologyNodeData ::
  "K8sResourceKind \<Rightarrow> OverviewItem \<Rightarrow> string \<Rightarrow> TopologyDataObject" where
  "createTopologyNodeData resource item type =
     \<lparr>dataId = uid (metadata resource), dataType = type, dataResource = Some resource,
      dataResources = item, dataSinkUri = None\<rparr>"

definition createTopologyServiceNodeData ::
  "K8sResourceKind \<Rightarrow> OverviewItem \<Rightarrow> string \<Rightarrow> TopologyDataObject" where
  "createTopologyServiceNodeData resource svcRes type =
     \<lparr>dataId = (case itemObj svcRes of None \<Rightarrow> None | Some knativeSvc \<Rightarrow> uid (metadata knativeSvc)),
      dataType = type, dataResource = Some resource, dataResources = svcRes,
      dataSinkUri = None\<rparr>"

definition createTopologyPubSubNodeData ::
  "K8sResourceKind \<Rightarrow> OverviewItem \<Rightarrow> string \<Rightarrow> error + TopologyDataObject" where
  "createTopologyPubSubNodeData resource res type =
     (case itemObj res of
        None \<Rightarrow> Inl TypeError
      | Some ob \<Rightarrow>
          Inr \<lparr>dataId = uid (metadata ob), dataType = type, dataResource = Some resource,
               dataResources = res, dataSinkUri = None\<rparr>)"

definition getKnativeTopologyNodeItems ::
  "K8sResourceKind \<Rightarrow> string \<Rightarrow> TopologyDataObject option \<Rightarrow> TopologyDataResources option
   \<Rightarrow> error + NodeModel list" where
  "getKnativeTopologyNodeItems resource type d resources =
     (case (if type = NodeType_KnService
            then (case resources of
                    None \<Rightarrow> None
                  | Some rs \<Rightarrow>
                      (case rs ''configurations'' of
                         None \<Rightarrow> None
                       | Some configurationsData \<Rightarrow> Some (rs, configurationsData)))
            else None) of
        None \<Rightarrow> Inr [getTopologyNodeItem resource type d (getKnNodeModelProps type) []]
      | Some (rs, configurationsData) \<Rightarrow>
          (let cfgs = getOwnedResources resource configurationsData;
               configUidData = (case cfgs of [] \<Rightarrow> None | c # _ \<Rightarrow> uid (metadata c))
           in case dataOf (rs ''revisions'') of
                Inl e \<Rightarrow> Inl e
              | Inr revisionsData \<Rightarrow>
                  (let ChildData =
                         filter (\<lambda>rv. case configUidData of
                                         None \<Rightarrow> False
                                       | Some u \<Rightarrow> u \<in> set (ownerUids rv))
                                revisionsData;
                       kept = (case filterRevisionsBaseOnTrafficStatus resource ChildData of
                                 None \<Rightarrow> []
                               | Some cs \<Rightarrow> cs);
                       childIds = map (\<lambda>c. uid (metadata c)) kept;
                       nodes =
                         map (\<lambda>c. getTopologyNodeItem c NodeType_Revision None
                                    (getKnNodeModelProps NodeType_Revision) [])
                             kept
                   in Inr (nodes @ [getTopologyNodeItem resource type d
                                      (getKnNodeModelProps type) childIds]))))"

definition getSinkUriTopologyNodeItems :: "string \<Rightarrow> string \<Rightarrow> TopologyDataObject \<Rightarrow> NodeModel list" where
  "getSinkUriTopologyNodeItems type ident d =
     [\<lparr>nodeId = Some ident, nodeType = type, nodeResource = dataResource d, nodeData = Some d,
       children = [], isGroup = propsGroup (getKnNodeModelProps type)\<rparr>]"

definition nodeSinkUri :: "NodeModel \<Rightarrow> string option" where
  "nodeSinkUri n = (case nodeData n of None \<Rightarrow> None | Some d \<Rightarrow> dataSinkUri d)"

definition getSinkTargetUid :: "NodeModel list \<Rightarrow> string option \<Rightarrow> string" where
  "getSinkTargetUid nodes sinkUriV =
     (case List.find (\<lambda>n. sinkUriV = nodeSinkUri n) nodes of
        None \<Rightarrow> []
      | Some sinkNodeData \<Rightarrow> (case nodeId sinkNodeData of None \<Rightarrow> [] | Some i \<Rightarrow> i))"

subsection \<open>Edges of event sources, triggers and subscriptions\<close>

definition getSinkUriTopologyEdgeItems :: "K8sResourceKind \<Rightarrow> string \<Rightarrow> EdgeModel list" where
  "getSinkUriTopologyEdgeItems resource targetUid =
     (if truthy (specSinkUri resource) \<and> truthy (uid (metadata resource))
      then [\<lparr>edgeId = interpolate (uid (metadata resource)) @ ''_'' @ targetUid,
             edgeType = EdgeType_EventSource,
             source = uid (metadata resource),
             target = Some targetUid,
             edgeData = None\<rparr>]
      else [])"

definition getKnativeDynamicResources :: "TopologyDataResources \<Rightarrow> string list \<Rightarrow> K8sResourceKind list" where
  "getKnativeDynamicResources resources dynamicProps =
     foldl (\<lambda>acc currProp. acc @ (case resources currProp of None \<Rightarrow> [] | Some d \<Rightarrow> d))
           [] dynamicProps"

definition getEventSourcesData :: "Shared \<Rightarrow> string \<Rightarrow> TopologyDataResources \<Rightarrow> K8sResourceKind list" where
  "getEventSourcesData ext sinkUriV resources =
     filter (\<lambda>evSrc. sinkUriV = (case specSinkUri evSrc of None \<Rightarrow> [] | Some u \<Rightarrow> u))
            (getKnativeDynamicResources resources (getDynamicEventSourcesModelRefs ext))"

text \<open>
  \<open>sinkTargetName\<close> is \<open>sinkTarget.name\<close> for
  \<open>sinkTarget = spec.sink.ref || spec.sink\<close>: \<open>None\<close> when there is no sink at all,
  otherwise the (possibly undefined) name. The names are compared with \<open>===\<close>, so two
  undefined names are equal.
\<close>

definition sinkTargetName :: "K8sResourceKind \<Rightarrow> string option option" where
  "sinkTargetName resource =
     (case specSink resource of
        None \<Rightarrow> None
      | Some sk \<Rightarrow> Some (case ref sk of Some rf \<Rightarrow> refName rf | None \<Rightarrow> sinkName sk))"

definition eventTopologyEdges :: "K8sResourceKind \<Rightarrow> K8sResourceKind list \<Rightarrow> EdgeModel list" where
  "eventTopologyEdges resource d =
     (case sinkTargetName resource of
        None \<Rightarrow> []
      | Some targetName \<Rightarrow>
          map (\<lambda>res. \<lparr>edgeId = interpolate (uid (metadata resource)) @ ''_''
                                 @ interpolate (uid (metadata res)),
                       edgeType = EdgeType_EventSource,
                       source = uid (metadata resource),
                       target = uid (metadata res),
                       edgeData = None\<rparr>)
              (filter (\<lambda>res. name (metadata res) = targetName) d))"

text \<open>
  The second parameter of \<open>getEventTopologyEdgeItems\<close> is destructured (\<open>{ data }\<close>):
  a missing category throws before the body runs; \<open>eventTopologyEdges\<close> is the body.
\<close>

definition getEventTopologyEdgeItems ::
  "K8sResourceKind \<Rightarrow> K8sResourceKind list option \<Rightarrow> error + EdgeModel list" where
  "getEventTopologyEdgeItems resource category =
     (case dataOf category of
        Inl e \<Rightarrow> Inl e
      | Inr d \<Rightarrow> Inr (eventTopologyEdges resource d))"

text \<open>
  \<open>_.find(services, {metadata: {name: n}})\<close> and
  \<open>_.find(services, {metadata: {name: n}, kind: k})\<close>: a partial deep match, which an
  undefined \<open>n\<close> or \<open>k\<close> never satisfies on an object parsed from JSON.
\<close>

definition findByName :: "K8sResourceKind list \<Rightarrow> string option \<Rightarrow> K8sResourceKind option" where
  "findByName rs n =
     (case n of None \<Rightarrow> None | Some v \<Rightarrow> List.find (\<lambda>r. name (metadata r) = Some v) rs)"

definition findByNameKind ::
  "K8sResourceKind list \<Rightarrow> string option \<Rightarrow> string option \<Rightarrow> K8sResourceKind option" where
  "findByNameKind rs n k =
     (case (n, k) of
        (Some v, Some w) \<Rightarrow> List.find (\<lambda>r. name (metadata r) = Some v \<and> kind r = Some w) rs
      | _ \<Rightarrow> None)"

definition orEmpty :: "'a list option \<Rightarrow> 'a list" where
  "orEmpty xs = (case xs of None \<Rightarrow> [] | Some ys \<Rightarrow> ys)"

definition getTriggerTopologyEdgeItems :: "K8sResourceKind \<Rightarrow> TopologyDataResources \<Rightarrow> EdgeModel list" where
  "getTriggerTopologyEdgeItems brokerRes resources =
     concat (map
       (\<lambda>trigger.
          (let brokerName = specBroker trigger;
               connectedService = refNameOf (specSubscriberRef trigger)
           in case resources ''ksservices'' of
                None \<Rightarrow> []
              | Some ksservicesData \<Rightarrow>
                  if name (metadata brokerRes) = brokerName then
                    (case findByName ksservicesData connectedService of
                       None \<Rightarrow> []
                     | Some knativeService \<Rightarrow>
                         [\<lparr>edgeId = interpolate (uid (metadata brokerRes)) @ ''_''
                                     @ interpolate (uid (metadata knativeService)),
                           edgeType = EdgeType_EventPubSubLink,
                           source = uid (metadata brokerRes),
                           target = uid (metadata knativeService),
                           edgeData = Some (Connection trigger [brokerRes, knativeService])\<rparr>])
                  else []))
       (orEmpty (resources ''triggers'')))"

definition getSubscriptionTopologyEdgeItems :: "K8sResourceKind \<Rightarrow> TopologyDataResources \<Rightarrow> EdgeModel list" where
  "getSubscriptionTopologyEdgeItems resource resources =
     concat (map
       (\<lambda>subRes.
          (let channelData = specChannel subRes
           in case resources ''ksservices'' of
                None \<Rightarrow> []
              | Some ksservicesData \<Rightarrow>
                  if name (metadata resource) = refNameOf channelData then
                    (case specSubscriberRef subRes of
                       None \<Rightarrow> []
                     | Some svcData \<Rightarrow>
                         map (\<lambda>res. \<lparr>edgeId = interpolate (uid (metadata resource)) @ ''_''
                                                @ interpolate (uid (metadata res)),
                                      edgeType = EdgeType_EventPubSubLink,
                                      source = uid (metadata resource),
                                      target = uid (metadata res),
                                      edgeData = Some (Connection subRes [resource, res])\<rparr>)
                             (filter (\<lambda>res. name (metadata res) = refName svcData) ksservicesData))
                  else []))
       (orEmpty (resources ''eventingsubscription'')))"

definition createPubSubDataItems ::
  "Shared \<Rightarrow> K8sResourceKind \<Rightarrow> TopologyDataResources \<Rightarrow> OverviewItem" where
  "createPubSubDataItems ext resource resources =
     (let resKind = kind resource;
          nm = name (metadata resource);
          subscriptionData = orEmpty (resources ''eventingsubscription'');
          triggerList = orEmpty (resources ''triggers'');
          ksservicesData = orEmpty (resources ''ksservices'');
          eventSourcesV =
            filter (\<lambda>evSrc. resKind = refKindOf (specSinkRef evSrc)
                            \<and> nm = refNameOf (specSinkRef evSrc))
                   (getKnativeDynamicResources resources (getDynamicEventSourcesModelRefs ext));
          subscribersV =
            orEmpty (case spec resource of
                       None \<Rightarrow> None
                     | Some sp \<Rightarrow> orElse (subscribableSubscribers sp) (subscribers sp));
          subs =
            filter (\<lambda>s. \<exists>x \<in> set subscribersV. subscriberUid x = uid (metadata s)) subscriptionData;
          subsServices =
            concat (map (\<lambda>s. filter (\<lambda>svc. kind svc = refKindOf (specSubscriberRef s)
                                           \<and> name (metadata svc) = refNameOf (specSubscriberRef s))
                                     ksservicesData)
                        subs);
          channelSubsData =
            emptyItem\<lparr>itemEventingsubscription := Some subs, itemKsservices := Some subsServices\<rparr>;
          labelled =
            (\<lambda>m. case resources (plural m) of
                    None \<Rightarrow> None
                  | Some d \<Rightarrow>
                      Some (map (\<lambda>ob. ob\<lparr>kind := Some (modelKind m)\<rparr>)
                                (filter (\<lambda>ob. brokerLabel (metadata ob) = nm) d)));
          triggersData =
            (if resKind = Some (modelKind (EventingBrokerModel ext)) then
               (let trs = filter (\<lambda>t. nm = specBroker t) triggerList;
                    trServices =
                      concat (map (\<lambda>t. case findByNameKind ksservicesData
                                                (refNameOf (specSubscriberRef t))
                                                (refKindOf (specSubscriberRef t)) of
                                          None \<Rightarrow> []
                                        | Some knService \<Rightarrow> [knService])
                                  trs)
                in emptyItem\<lparr>itemKsservices := Some trServices,
                             itemTriggers := Some trs,
                             itemPods := labelled (PodModel ext),
                             itemDeployments := labelled (DeploymentModel ext)\<rparr>)
             else emptyItem)
      in spreadItem
           (spreadItem
              (emptyItem\<lparr>itemObj := Some resource,
                         itemBuildConfigs := Some [],
                         itemRoutes := Some [],
                         itemServices := Some [],
                         itemEventSources := Some eventSourcesV\<rparr>)
              channelSubsData)
           triggersData)"

subsection \<open>Application groups\<close>

text \<open>
  Modelled from the spec: \<open>getTopologyGroupItems\<close> and \<open>mergeGroup\<close> (imported from the
  topology package) compute the application group a resource belongs to, from its
  \<open>part-of\<close> label, and merge it into the running group structure: a group node per
  application, whose children are the ids of the resources that carry the label.
\<close>

definition getTopologyGroupItems :: "K8sResourceKind \<Rightarrow> NodeModel option" where
  "getTopologyGroupItems res =
     (if truthy (partOf (metadata res))
      then Some \<lparr>nodeId = Some (''group:'' @ interpolate (partOf (metadata res))),
                 nodeType = ''part-of'', nodeResource = None, nodeData = None,
                 children = [uid (metadata res)], isGroup = True\<rparr>
      else None)"

definition mergeGroup :: "NodeModel option \<Rightarrow> NodeModel list \<Rightarrow> NodeModel list" where
  "mergeGroup newGroup existingGroups =
     (case newGroup of
        None \<Rightarrow> existingGroups
      | Some g \<Rightarrow>
          (case findIndex (\<lambda>n. isGroup n \<and> nodeId n = nodeId g) existingGroups of
             None \<Rightarrow> existingGroups @ [g]
           | Some i \<Rightarrow>
               existingGroups
                 [i := (existingGroups ! i)
                    \<lparr>children :=
                       foldl (\<lambda>cs c. if c \<in> set cs then cs else cs @ [c])
                             (children (existingGroups ! i)) (children g)\<rparr>]))"

section \<open>Graph assembler\<close>

text \<open>
  \<open>encodeURIComponent\<close> on a UTF-8 byte string: every byte but the unreserved
  characters \<open>A-Z a-z 0-9 - _ . ! ~ * ' ( )\<close> becomes \<open>%XX\<close>, in upper-case hexadecimal.
\<close>

definition uriUnreserved :: "char \<Rightarrow> bool" where
  "uriUnreserved c \<longleftrightarrow>
     c \<in> set (''ABCDEFGHIJKLMNOPQRSTUVWXYZabcdefghijklmnopqrstuvwxyz0123456789-_.!~*()''
              @ [CHR 0x27])"

definition hexDigit :: "nat \<Rightarrow> char" where
  "hexDigit n = ''0123456789ABCDEF'' ! (n mod 16)"

definition encodeURIComponent :: "string \<Rightarrow> string" where
  "encodeURIComponent s =
     concat (map (\<lambda>c. if uriUnreserved c then [c]
                      else [CHR ''%'', hexDigit (of_char c div 16), hexDigit (of_char c mod 16)])
                 s)"

record Model =
  modelNodes :: "NodeModel list"
  modelEdges :: "EdgeModel list"

definition orEmptyString :: "string option \<Rightarrow> string" where
  "orEmptyString s = (case s of None \<Rightarrow> [] | Some x \<Rightarrow> x)"

definition sinkUriObject :: "string \<Rightarrow> string \<Rightarrow> string \<Rightarrow> K8sResourceKind" where
  "sinkUriObject sinkTargetUid ns sinkUriV =
     \<lparr>apiVersion = None, kind = None,
      metadata = \<lparr>uid = Some sinkTargetUid, name = None, namespace = Some ns,
                  ownerReferences = None, partOf = None, brokerLabel = None\<rparr>,
      spec = Some \<lparr>sink = None, sinkUri = Some sinkUriV, broker = None, subscriberRef = None,
                   channel = None, subscribableSubscribers = None, subscribers = None,
                   otherSpec = []\<rparr>,
      status = None,
      nodeTypeTag = Some NodeType_SinkUri\<rparr>"

definition sinkUriStep ::
  "Shared \<Rightarrow> TopologyDataResources \<Rightarrow> K8sResourceKind \<Rightarrow> TopologyDataObject
   \<Rightarrow> NodeModel list \<Rightarrow> EdgeModel list \<Rightarrow> error + NodeModel list \<times> EdgeModel list" where
  "sinkUriStep ext resources res d nodes edges =
     (let sinkUriV = specSinkUri res;
          sinkTargetUid = getSinkTargetUid nodes sinkUriV
      in if truthy sinkUriV then
           (if sinkTargetUid = [] then
              (case itemObj (dataResources d) of
                 None \<Rightarrow> Inl TypeError
               | Some ob \<Rightarrow>
                   (let newTargetUid = encodeURIComponent (orEmptyString sinkUriV);
                        eventSourcesData = getEventSourcesData ext (orEmptyString sinkUriV) resources;
                        sinkUriObj =
                          sinkUriObject newTargetUid (orEmptyString (namespace (metadata ob)))
                            (orEmptyString sinkUriV);
                        sinkData =
                          \<lparr>dataId = Some newTargetUid,
                           dataType = NodeType_SinkUri,
                           dataResource = Some sinkUriObj,
                           dataResources =
                             (dataResources d)\<lparr>itemObj := Some sinkUriObj,
                                               itemEventSources := Some eventSourcesData\<rparr>,
                           dataSinkUri = sinkUriV\<rparr>
                    in Inr (nodes @ getSinkUriTopologyNodeItems NodeType_SinkUri newTargetUid sinkData,
                            edges @ getSinkUriTopologyEdgeItems res newTargetUid)))
            else Inr (nodes, edges @ getSinkUriTopologyEdgeItems res sinkTargetUid))
         else Inr (nodes, edges))"

definition channelEdges :: "Shared \<Rightarrow> TopologyDataResources \<Rightarrow> K8sResourceKind \<Rightarrow> EdgeModel list" where
  "channelEdges ext resources res =
     (if \<not> isInternalResource (EventingBrokerModel ext) res
      then concat (map (\<lambda>currentProp. case resources currentProp of
                                         None \<Rightarrow> []
                                       | Some d \<Rightarrow> eventTopologyEdges res d)
                       (getDynamicChannelModelRefs ext))
      else [])"

definition eventSourceStep ::
  "Shared \<Rightarrow> TopologyDataResources \<Rightarrow> Model \<Rightarrow> K8sResourceKind \<Rightarrow> OverviewItem
   \<Rightarrow> error + Model" where
  "eventSourceStep ext resources knDataModel res item =
     (let d = createTopologyNodeData res item NodeType_EventSource in
      case getKnativeTopologyNodeItems res NodeType_EventSource (Some d) (Some resources) of
        Inl e \<Rightarrow> Inl e
      | Inr newNodes \<Rightarrow>
          (case getEventTopologyEdgeItems res (resources ''ksservices'') of
             Inl e \<Rightarrow> Inl e
           | Inr serviceEdges \<Rightarrow>
               (case sinkUriStep ext resources res d
                       (modelNodes knDataModel @ newNodes)
                       (modelEdges knDataModel @ serviceEdges) of
                  Inl e \<Rightarrow> Inl e
                | Inr (nodes2, edges2) \<Rightarrow>
                    (case getEventTopologyEdgeItems res (resources ''brokers'') of
                       Inl e \<Rightarrow> Inl e
                     | Inr brokerEdges \<Rightarrow>
                         Inr \<lparr>modelNodes = mergeGroup (getTopologyGroupItems res) nodes2,
                              modelEdges = edges2 @ channelEdges ext resources res @ brokerEdges\<rparr>))))"

definition knServiceStep ::
  "TopologyDataResources \<Rightarrow> Model \<Rightarrow> K8sResourceKind \<Rightarrow> OverviewItem \<Rightarrow> error + Model" where
  "knServiceStep resources knDataModel res item =
     (let d = createTopologyServiceNodeData res item NodeType_KnService in
      case getKnativeTopologyNodeItems res NodeType_KnService (Some d) (Some resources) of
        Inl e \<Rightarrow> Inl e
      | Inr newNodes \<Rightarrow>
          (case getTrafficTopologyEdgeItems res (resources ''revisions'') of
             Inl e \<Rightarrow> Inl e
           | Inr trafficEdges \<Rightarrow>
               Inr \<lparr>modelNodes =
                      mergeGroup (getTopologyGroupItems res) (modelNodes knDataModel @ newNodes),
                    modelEdges = modelEdges knDataModel @ trafficEdges\<rparr>))"

definition pubSubStep ::
  "Shared \<Rightarrow> TopologyDataResources \<Rightarrow> Model \<Rightarrow> K8sResourceKind \<Rightarrow> error + Model" where
  "pubSubStep ext resources knDataModel res =
     (if \<not> isInternalResource (EventingBrokerModel ext) res then
        (let itemData = createPubSubDataItems ext res resources in
         case createTopologyPubSubNodeData res itemData NodeType_PubSub of
           Inl e \<Rightarrow> Inl e
         | Inr d \<Rightarrow>
             (case getKnativeTopologyNodeItems res NodeType_PubSub (Some d) (Some resources) of
                Inl e \<Rightarrow> Inl e
              | Inr newNodes \<Rightarrow>
                  Inr \<lparr>modelNodes =
                         mergeGroup (getTopologyGroupItems res) (modelNodes knDataModel @ newNodes),
                       modelEdges =
                         modelEdges knDataModel
                         @ (if kind res = Some (modelKind (EventingBrokerModel ext))
                            then getTriggerTopologyEdgeItems res resources
                            else getSubscriptionTopologyEdgeItems res resources)\<rparr>))
      else Inr knDataModel)"

definition transformStep ::
  "Shared \<Rightarrow> string \<Rightarrow> TopologyDataResources \<Rightarrow> KnativeUtil list option
   \<Rightarrow> Model \<Rightarrow> K8sResourceKind \<Rightarrow> error + Model" where
  "transformStep ext type resources utils knDataModel res =
     (case createKnativeDeploymentItems ext res resources utils of
        Inl e \<Rightarrow> Inl e
      | Inr item \<Rightarrow>
          if type = NodeType_EventSource then eventSourceStep ext resources knDataModel res item
          else if type = NodeType_KnService then knServiceStep resources knDataModel res item
          else if type = NodeType_PubSub then pubSubStep ext resources knDataModel res
          else Inr knDataModel)"

definition transformKnNodeData ::
  "Shared \<Rightarrow> K8sResourceKind list \<Rightarrow> string \<Rightarrow> TopologyDataResources
   \<Rightarrow> KnativeUtil list option \<Rightarrow> error + Model" where
  "transformKnNodeData ext knResourcesData type resources utils =
     forEachE (transformStep ext type resources utils) knResourcesData
       \<lparr>modelNodes = [], modelEdges = []\<rparr>"

section \<open>Mutation operations\<close>

text \<open>
  Each operation builds a payload and makes one call of the API client. The client
  (\<open>k8sCreate\<close>, \<open>k8sUpdate\<close>) is an argument: the function from the model descriptor
  and the payload to the outcome of the call, an error or the stored resource. An
  operation returns the effects it had, in order, and how its promise settles.
  \<open>errorModal\<close> is the notification sink; \<open>getRandomChars()\<close> is the argument
  \<open>randomChars\<close>; \<open>modelFor(referenceFor(source))\<close> is the argument \<open>modelOf\<close>.

  The source compares \<open>source === target\<close>, the identity of two objects and not their
  contents: an object handed to an operation is an address with its content.
\<close>

record ApiError =
  message :: "string option"

datatype 'a PromiseOutcome = Resolved 'a | Rejected "ApiError option"

datatype Effect =
  K8sCreate K8sKind K8sResourceKind
| K8sUpdate K8sKind K8sResourceKind
| ErrorModal string "string option"

datatype 'a JsObject = JsObject (addr: nat) (content: 'a)

definition sameObject :: "'a JsObject \<Rightarrow> 'a JsObject \<Rightarrow> bool" where
  "sameObject a b \<longleftrightarrow> addr a = addr b"

definition emptySpec :: ResourceSpec where
  "emptySpec =
     \<lparr>sink = None, sinkUri = None, broker = None, subscriberRef = None, channel = None,
      subscribableSubscribers = None, subscribers = None, otherSpec = []\<rparr>"

definition emptyMetadata :: ObjectMetadata where
  "emptyMetadata =
     \<lparr>uid = None, name = None, namespace = None, ownerReferences = None, partOf = None,
      brokerLabel = None\<rparr>"

definition settle :: "ApiError + K8sResourceKind \<Rightarrow> K8sResourceKind PromiseOutcome" where
  "settle r = (case r of Inl err \<Rightarrow> Rejected (Some err) | Inr v \<Rightarrow> Resolved v)"

definition createKnativeEventSourceSink ::
  "(K8sKind \<Rightarrow> K8sResourceKind \<Rightarrow> ApiError + K8sResourceKind) \<Rightarrow> (K8sResourceKind \<Rightarrow> K8sKind)
   \<Rightarrow> K8sResourceKind JsObject option \<Rightarrow> K8sResourceKind JsObject option
   \<Rightarrow> Effect list \<times> K8sResourceKind PromiseOutcome" where
  "createKnativeEventSourceSink k8sUpdate modelOf sourceV targetV =
     (case (sourceV, targetV) of
        (Some s, Some t) \<Rightarrow>
          if sameObject s t then ([], Rejected None)
          else
            (let eventSourceObj = (content s)\<lparr>status := None\<rparr>;
                 sinkV =
                   (if Some NodeType_SinkUri = nodeTypeTag (content t)
                    then \<lparr>ref = None,
                          uri = (case spec (content t) of None \<Rightarrow> None | Some sp \<Rightarrow> sinkUri sp),
                          sinkName = None\<rparr>
                    else \<lparr>ref = Some \<lparr>refApiVersion = apiVersion (content t),
                                      refKind = kind (content t),
                                      refName = name (metadata (content t))\<rparr>,
                          uri = None,
                          sinkName = None\<rparr>);
                 updatePayload =
                   eventSourceObj
                     \<lparr>spec := Some ((case spec eventSourceObj of None \<Rightarrow> emptySpec | Some sp \<Rightarrow> sp)
                                      \<lparr>sink := Some sinkV\<rparr>)\<rparr>
             in ([K8sUpdate (modelOf (content s)) updatePayload],
                 settle (k8sUpdate (modelOf (content s)) updatePayload)))
      | _ \<Rightarrow> ([], Rejected None))"

definition createSinkConnection ::
  "(K8sKind \<Rightarrow> K8sResourceKind \<Rightarrow> ApiError + K8sResourceKind) \<Rightarrow> (K8sResourceKind \<Rightarrow> K8sKind)
   \<Rightarrow> (NodeModel JsObject \<Rightarrow> K8sResourceKind JsObject option)
   \<Rightarrow> NodeModel JsObject option \<Rightarrow> NodeModel JsObject option
   \<Rightarrow> Effect list \<times> K8sResourceKind PromiseOutcome" where
  "createSinkConnection k8sUpdate modelOf getResource sourceV targetV =
     (case (sourceV, targetV) of
        (Some s, Some t) \<Rightarrow>
          if sameObject s t then ([], Rejected None)
          else createKnativeEventSourceSink k8sUpdate modelOf (getResource s) (getResource t)
      | _ \<Rightarrow> ([], Rejected None))"

definition createEventingTrigger ::
  "K8sKind \<Rightarrow> K8sKind \<Rightarrow> string \<Rightarrow> (K8sKind \<Rightarrow> K8sResourceKind \<Rightarrow> ApiError + K8sResourceKind)
   \<Rightarrow> K8sResourceKind \<Rightarrow> K8sResourceKind
   \<Rightarrow> Effect list \<times> K8sResourceKind option PromiseOutcome" where
  "createEventingTrigger EventingTriggerModel ServiceModel randomChars k8sCreate brokerRes service =
     (let trigger =
            \<lparr>apiVersion = Some (apiGroup EventingTriggerModel @ ''/'' @ modelApiVersion EventingTriggerModel),
             kind = Some (modelKind EventingTriggerModel),
             metadata =
               emptyMetadata
                 \<lparr>name := Some (interpolate (name (metadata brokerRes)) @ ''-trigger-'' @ randomChars),
                  namespace := namespace (metadata brokerRes)\<rparr>,
             spec =
               Some (emptySpec
                 \<lparr>broker := name (metadata brokerRes),
                  subscriberRef :=
                    Some \<lparr>refApiVersion = Some (apiGroup ServiceModel @ ''/'' @ modelApiVersion ServiceModel),
                          refKind = Some (modelKind ServiceModel),
                          refName = name (metadata service)\<rparr>\<rparr>),
             status = None,
             nodeTypeTag = None\<rparr>
      in case k8sCreate EventingTriggerModel trigger of
           Inr created \<Rightarrow> ([K8sCreate EventingTriggerModel trigger], Resolved (Some created))
         | Inl err \<Rightarrow>
             ([K8sCreate EventingTriggerModel trigger,
               ErrorModal ''Error creating trigger'' (message err)],
              Resolved None))"

section \<open>What the properties are stated with\<close>

text \<open>
  \<open>ownedBy r c\<close>: the uid of the candidate \<open>c\<close> is among the owner uids of \<open>r\<close>.
\<close>

definition ownedBy :: "K8sResourceKind \<Rightarrow> K8sResourceKind \<Rightarrow> bool" where
  "ownedBy r c = (case uid (metadata c) of None \<Rightarrow> False | Some u \<Rightarrow> u \<in> set (ownerUids r))"







text \<open>
  \<open>sinkFor t\<close> is the \<open>spec.sink\<close> that points at the target \<open>t\<close>.
\<close>

definition sinkFor :: "K8sResourceKind \<Rightarrow> SinkSpec" where
  "sinkFor t =
     (if nodeTypeTag t = Some NodeType_SinkUri
      then \<lparr>ref = None, uri = (case spec t of None \<Rightarrow> None | Some sp \<Rightarrow> sinkUri sp), sinkName = None\<rparr>
      else \<lparr>ref = Some \<lparr>refApiVersion = apiVersion t, refKind = kind t, refName = name (metadata t)\<rparr>,
            uri = None, sinkName = None\<rparr>)"

text \<open>
  The invariant of the node list while event sources are assembled: a node that carries a
  \<open>sinkUri\<close> is a sink-uri node whose id is the escaped URI, every other node has another
  type, and no two nodes carry the same \<open>sinkUri\<close>. \<open>eventSourceEdges\<close> lists the edges
  that one event source adds, in the order of the source; \<open>sinkUriEdge res u\<close> is its edge to
  the sink-uri node of \<open>u\<close>.
\<close>

definition sinkOk :: "NodeModel \<Rightarrow> bool" where
  "sinkOk n \<longleftrightarrow>
     (case nodeSinkUri n of
        None \<Rightarrow> nodeType n \<noteq> NodeType_SinkUri
      | Some u \<Rightarrow> u \<noteq> [] \<and> nodeId n = Some (encodeURIComponent u) \<and> nodeType n = NodeType_SinkUri)"

definition sinkNodesInv :: "NodeModel list \<Rightarrow> bool" where
  "sinkNodesInv nodes \<longleftrightarrow>
     list_all sinkOk nodes \<and> distinct (filter (\<lambda>x. x \<noteq> None) (map nodeSinkUri nodes))"

definition sinkUrisOf :: "NodeModel list \<Rightarrow> string set" where
  "sinkUrisOf nodes = {u. Some u \<in> nodeSinkUri ` set nodes}"

definition sinkEdgeFor :: "K8sResourceKind \<Rightarrow> EdgeModel list" where
  "sinkEdgeFor res =
     getSinkUriTopologyEdgeItems res (encodeURIComponent (orEmptyString (specSinkUri res)))"

definition eventSourceEdges :: "Shared \<Rightarrow> TopologyDataResources \<Rightarrow> K8sResourceKind \<Rightarrow> EdgeModel list" where
  "eventSourceEdges ext resources res =
     eventTopologyEdges res (orEmpty (resources ''ksservices''))
     @ sinkEdgeFor res
     @ channelEdges ext resources res
     @ eventTopologyEdges res (orEmpty (resources ''brokers''))"

definition sinkUriEdge :: "K8sResourceKind \<Rightarrow> string \<Rightarrow> EdgeModel" where
  "sinkUriEdge res u =
     \<lparr>edgeId = interpolate (uid (metadata res)) @ ''_'' @ encodeURIComponent u,
      edgeType = EdgeType_EventSource,
      source = uid (metadata res),
      target = Some (encodeURIComponent u),
      edgeData = None\<rparr>"

section \<open>Example inputs\<close>

definition exampleMetadata :: "string \<Rightarrow> string \<Rightarrow> string list \<Rightarrow> ObjectMetadata" where
  "exampleMetadata u n owners =
     \<lparr>uid = Some u, name = Some n, namespace = Some ''ns'',
      ownerReferences = (if owners = [] then None else Some (map (\<lambda>x. \<lparr>ownerUid = x\<rparr>) owners)),
      partOf = None, brokerLabel = None\<rparr>"

definition exampleResource :: "string \<Rightarrow> string \<Rightarrow> string \<Rightarrow> string list \<Rightarrow> K8sResourceKind" where
  "exampleResource k u n owners =
     \<lparr>apiVersion = Some ''v1'', kind = Some k, metadata = exampleMetadata u n owners,
      spec = None, status = None, nodeTypeTag = None\<rparr>"

definition withTraffic :: "K8sResourceKind \<Rightarrow> (string \<times> int) list \<Rightarrow> K8sResourceKind" where
  "withTraffic r ts =
     r\<lparr>status := Some \<lparr>traffic = Some (map (\<lambda>(n, p). \<lparr>revisionName = Some n, percent = p\<rparr>) ts)\<rparr>\<rparr>"

definition examplePartOfFilter :: "K8sResourceKind option list \<Rightarrow> string \<Rightarrow> K8sResourceKind option list" where
  "examplePartOfFilter xs app =
     filter (\<lambda>x. case x of None \<Rightarrow> False | Some r \<Rightarrow> partOf (metadata r) = Some app) xs"

definition withPartOf :: "K8sResourceKind \<Rightarrow> string \<Rightarrow> K8sResourceKind" where
  "withPartOf r app = r\<lparr>metadata := (metadata r)\<lparr>partOf := Some app\<rparr>\<rparr>"

lemmas example_defs =
  exampleMetadata_def exampleResource_def withTraffic_def withPartOf_def examplePartOfFilter_def

definition withSinkRef :: "K8sResourceKind \<Rightarrow> string \<Rightarrow> K8sResourceKind" where
  "withSinkRef r n =
     r\<lparr>spec := Some (emptySpec\<lparr>sink := Some \<lparr>ref = Some \<lparr>refApiVersion = Some ''v1'',
                                                          refKind = Some ''Service'',
                                                          refName = Some n\<rparr>,
                                              uri = None, sinkName = None\<rparr>,
                               otherSpec := [(''schedule'', ''* * * * *'')]\<rparr>),
       status := Some \<lparr>traffic = None\<rparr>\<rparr>"

definition withSinkUri :: "K8sResourceKind \<Rightarrow> string \<Rightarrow> K8sResourceKind" where
  "withSinkUri r u =
     r\<lparr>spec := Some (emptySpec\<lparr>sink := Some \<lparr>ref = None, uri = Some u, sinkName = None\<rparr>\<rparr>)\<rparr>"

definition exampleShared :: Shared where
  "exampleShared =
     \<lparr>apiVersionForModel = (\<lambda>m. apiGroup m @ ''/'' @ modelApiVersion m),
      getReplicaSetsForResource = (\<lambda>r rs. []),
      getBuildConfigsForResource = (\<lambda>r rs. []),
      getServicesForResource = (\<lambda>r rs. []),
      getRoutesForServices = (\<lambda>r rs. []),
      getResourcePausedAlert = (\<lambda>r. []),
      getBuildAlerts = (\<lambda>r. []),
      DeploymentModel = \<lparr>apiGroup = ''apps'', modelApiVersion = ''v1'', modelKind = ''Deployment'', plural = ''deployments''\<rparr>,
      PodModel = \<lparr>apiGroup = ''core'', modelApiVersion = ''v1'', modelKind = ''Pod'', plural = ''pods''\<rparr>,
      EventingBrokerModel = \<lparr>apiGroup = ''eventing.knative.dev'', modelApiVersion = ''v1beta1'', modelKind = ''Broker'', plural = ''brokers''\<rparr>,
      getDynamicEventSourcesModelRefs = [''sources.knative.dev~v1~PingSource''],
      getDynamicChannelModelRefs = [''messaging.knative.dev~v1~InMemoryChannel'']\<rparr>"


definition exampleEventSnapshot :: TopologyDataResources where
  "exampleEventSnapshot =
     [''deployments'' \<mapsto> [],
      ''configurations'' \<mapsto> [],
      ''revisions'' \<mapsto> [],
      ''ksservices'' \<mapsto> [exampleResource ''Service'' ''svc-1'' ''svc'' []],
      ''brokers'' \<mapsto> [exampleResource ''Broker'' ''b-1'' ''default'' []]]"

definition exampleUpdateFails :: "K8sKind \<Rightarrow> K8sResourceKind \<Rightarrow> ApiError + K8sResourceKind" where
  "exampleUpdateFails m r = Inl \<lparr>message = Some ''409 Conflict''\<rparr>"

definition exampleUpdateOk :: "K8sKind \<Rightarrow> K8sResourceKind \<Rightarrow> ApiError + K8sResourceKind" where
  "exampleUpdateOk m r = Inr r"

definition exampleModelOf :: "K8sResourceKind \<Rightarrow> K8sKind" where
  "exampleModelOf r =
     \<lparr>apiGroup = ''sources.knative.dev'', modelApiVersion = ''v1'',
      modelKind = orEmptyString (kind r), plural = ''sources''\<rparr>"

definition exampleTriggerModel :: K8sKind where
  "exampleTriggerModel =
     \<lparr>apiGroup = ''eventing.knative.dev'', modelApiVersion = ''v1beta1'', modelKind = ''Trigger'',
      plural = ''triggers''\<rparr>"

definition exampleServiceModel :: K8sKind where
  "exampleServiceModel =
     \<lparr>apiGroup = ''serving.knative.dev'', modelApiVersion = ''v1'', modelKind = ''Service'',
      plural = ''services''\<rparr>"

section \<open>Properties\<close>

subsection \<open>The parent of a resource\<close>

lemma filter_head_find:
  "(case filter P xs of [] \<Rightarrow> None | y # _ \<Rightarrow> Some y) = List.find P xs"
  by (induction xs) auto

lemma getParentResource_find:
  "getParentResource (Some r) cs = List.find (ownedBy r) cs"
proof -
  have "(\<lambda>c. arrayIncludes (ownerUids r) (uid (metadata c))) = ownedBy r"
    by (rule ext) (simp add: arrayIncludes_def ownedBy_def)
  moreover have "map ownerUid (case ownerReferences (metadata r) of None \<Rightarrow> [] | Some os \<Rightarrow> os)
      = ownerUids r"
    by (simp add: ownerUids_def split: option.splits)
  ultimately show ?thesis
    by (simp add: getParentResource_def filter_head_find)
qed

text \<open>
  C6. \<open>getParentResource\<close> returns the first candidate, in collection order, whose
  \<open>metadata.uid\<close> is among the uids of the resource's owner references: the result is
  \<open>Some c\<close> exactly when the candidates split into a prefix without a match, then \<open>c\<close>,
  which matches. It returns none when no candidate matches, and so for every resource
  without owner references, whatever the candidates are.
\<close>

theorem getParentResource_first_match:
  "(getParentResource (Some r) cs = Some c \<longleftrightarrow>
      (\<exists>pre post. cs = pre @ c # post \<and> ownedBy r c \<and> (\<forall>x \<in> set pre. \<not> ownedBy r x)))
   \<and> (getParentResource (Some r) cs = None \<longleftrightarrow> (\<forall>x \<in> set cs. \<not> ownedBy r x))
   \<and> (ownerReferences (metadata r) = None \<or> ownerReferences (metadata r) = Some []
        \<longrightarrow> getParentResource (Some r) cs = None)"
proof (intro conjI)
  show "getParentResource (Some r) cs = Some c \<longleftrightarrow>
      (\<exists>pre post. cs = pre @ c # post \<and> ownedBy r c \<and> (\<forall>x \<in> set pre. \<not> ownedBy r x))"
  proof
    assume "getParentResource (Some r) cs = Some c"
    then have "List.find (ownedBy r) cs = Some c"
      by (simp add: getParentResource_find)
    then obtain i where i: "i < length cs" "ownedBy r (cs ! i)" "c = cs ! i"
      "\<forall>j<i. \<not> ownedBy r (cs ! j)"
      by (auto simp: find_Some_iff)
    have "cs = take i cs @ c # drop (Suc i) cs"
      using i(1,3) by (simp add: id_take_nth_drop)
    moreover have "\<forall>x \<in> set (take i cs). \<not> ownedBy r x"
      using i(1,4) by (auto simp: in_set_conv_nth)
    ultimately show "\<exists>pre post. cs = pre @ c # post \<and> ownedBy r c
        \<and> (\<forall>x \<in> set pre. \<not> ownedBy r x)"
      using i(2,3) by blast
  next
    assume "\<exists>pre post. cs = pre @ c # post \<and> ownedBy r c \<and> (\<forall>x \<in> set pre. \<not> ownedBy r x)"
    then obtain pre post where s: "cs = pre @ c # post" "ownedBy r c"
      "\<forall>x \<in> set pre. \<not> ownedBy r x"
      by blast
    have "List.find (ownedBy r) (pre @ c # post) = Some c"
      using s(2,3) by (induction pre) auto
    then show "getParentResource (Some r) cs = Some c"
      by (simp add: getParentResource_find s(1))
  qed
next
  show "getParentResource (Some r) cs = None \<longleftrightarrow> (\<forall>x \<in> set cs. \<not> ownedBy r x)"
    by (auto simp: getParentResource_find find_None_iff)
next
  show "ownerReferences (metadata r) = None \<or> ownerReferences (metadata r) = Some []
        \<longrightarrow> getParentResource (Some r) cs = None"
    by (auto simp: getParentResource_find find_None_iff ownedBy_def ownerUids_def
        split: option.splits)
qed

theorem getParentResource_first_match_witness:
  "getParentResource (Some (exampleResource ''Revision'' ''rev-1'' ''r1'' [''cfg-1'']))
     [exampleResource ''Configuration'' ''cfg-0'' ''other'' [],
      exampleResource ''Configuration'' ''cfg-1'' ''first'' [],
      exampleResource ''Configuration'' ''cfg-1'' ''second'' []]
   = Some (exampleResource ''Configuration'' ''cfg-1'' ''first'' [])
   \<and> getParentResource (Some (exampleResource ''Revision'' ''rev-2'' ''orphan'' []))
       [exampleResource ''Configuration'' ''cfg-1'' ''first'' []] = None"
proof -
  let ?r = "exampleResource ''Revision'' ''rev-1'' ''r1'' [''cfg-1'']"
  let ?c0 = "exampleResource ''Configuration'' ''cfg-0'' ''other'' []"
  let ?c1 = "exampleResource ''Configuration'' ''cfg-1'' ''first'' []"
  let ?c2 = "exampleResource ''Configuration'' ''cfg-1'' ''second'' []"
  let ?orphan = "exampleResource ''Revision'' ''rev-2'' ''orphan'' []"
  have "\<exists>pre post. [?c0, ?c1, ?c2] = pre @ ?c1 # post \<and> ownedBy ?r ?c1
      \<and> (\<forall>x \<in> set pre. \<not> ownedBy ?r x)"
    by (rule exI[of _ "[?c0]"], rule exI[of _ "[?c2]"])
      (simp add: ownedBy_def ownerUids_def example_defs)
  then have a: "getParentResource (Some ?r) [?c0, ?c1, ?c2] = Some ?c1"
    using getParentResource_first_match[of ?r "[?c0, ?c1, ?c2]" ?c1] by blast
  have "ownerReferences (metadata ?orphan) = None"
    by (simp add: example_defs)
  then have b: "getParentResource (Some ?orphan) [?c1] = None"
    using getParentResource_first_match[of ?orphan "[?c1]"] by blast
  from a b show ?thesis by blast
qed

subsection \<open>Revisions of the active application\<close>







subsection \<open>Internal resources\<close>

text \<open>
  C5. \<open>isInternalResource\<close> holds exactly when the kind of the resource is not the
  broker kind and the resource carries owner references (the \<open>ownerReferences\<close> key is
  there). So a broker with owner references is not internal, any other resource with
  owner references is, and a resource without owner references is not.
\<close>

theorem isInternalResource_iff:
  "(isInternalResource brokerModel resource \<longleftrightarrow>
      kind resource \<noteq> Some (modelKind brokerModel)
      \<and> ownerReferences (metadata resource) \<noteq> None)
   \<and> (kind resource = Some (modelKind brokerModel)
        \<and> ownerReferences (metadata resource) \<noteq> None
        \<longrightarrow> \<not> isInternalResource brokerModel resource)
   \<and> (kind resource \<noteq> Some (modelKind brokerModel)
        \<and> ownerReferences (metadata resource) \<noteq> None
        \<longrightarrow> isInternalResource brokerModel resource)
   \<and> (kind resource \<noteq> Some (modelKind brokerModel)
        \<and> ownerReferences (metadata resource) = None
        \<longrightarrow> \<not> isInternalResource brokerModel resource)"
  by (simp add: isInternalResource_def)

theorem isInternalResource_iff_witness:
  "\<not> isInternalResource \<lparr>apiGroup = ''eventing.knative.dev'', modelApiVersion = ''v1beta1'', modelKind = ''Broker'', plural = ''brokers''\<rparr>
       (exampleResource ''Broker'' ''b-1'' ''default'' [''owner-1''])
   \<and> isInternalResource \<lparr>apiGroup = ''eventing.knative.dev'', modelApiVersion = ''v1beta1'', modelKind = ''Broker'', plural = ''brokers''\<rparr>
       (exampleResource ''Channel'' ''c-1'' ''chan'' [''owner-1''])
   \<and> \<not> isInternalResource \<lparr>apiGroup = ''eventing.knative.dev'', modelApiVersion = ''v1beta1'', modelKind = ''Broker'', plural = ''brokers''\<rparr>
       (exampleResource ''Channel'' ''c-2'' ''chan'' [])"
proof -
  let ?M = "\<lparr>apiGroup = ''eventing.knative.dev'', modelApiVersion = ''v1beta1'', modelKind = ''Broker'', plural = ''brokers''\<rparr>"
  let ?b = "exampleResource ''Broker'' ''b-1'' ''default'' [''owner-1'']"
  let ?c = "exampleResource ''Channel'' ''c-1'' ''chan'' [''owner-1'']"
  let ?d = "exampleResource ''Channel'' ''c-2'' ''chan'' []"
  have b: "kind ?b = Some (modelKind ?M) \<and> ownerReferences (metadata ?b) \<noteq> None"
    by (simp add: example_defs)
  have c: "kind ?c \<noteq> Some (modelKind ?M) \<and> ownerReferences (metadata ?c) \<noteq> None"
    by (simp add: example_defs)
  have d: "kind ?d \<noteq> Some (modelKind ?M) \<and> ownerReferences (metadata ?d) = None"
    by (simp add: example_defs)
  from b have "\<not> isInternalResource ?M ?b"
    using isInternalResource_iff[of ?M ?b] by blast
  moreover from c have "isInternalResource ?M ?c"
    using isInternalResource_iff[of ?M ?c] by blast
  moreover from d have "\<not> isInternalResource ?M ?d"
    using isInternalResource_iff[of ?M ?d] by blast
  ultimately show ?thesis by blast
qed

subsection \<open>Traffic edges\<close>

























subsection \<open>Service nodes without traffic, and the revisions of the rollup\<close>

text \<open>
  C10. For a resource whose status has no traffic list,
  \<open>filterRevisionsBaseOnTrafficStatus\<close> returns none (not an empty list), and
  \<open>getKnativeTopologyNodeItems\<close> for a Knative-service node produces exactly one node:
  the group node itself, with no children and no revision nodes. (The source reads
  \<open>resources.revisions.data\<close> unguarded once it has found the configurations, so the
  snapshot holds the revisions whenever it holds the configurations.)
\<close>

theorem no_traffic_single_node:
  assumes "statusTraffic resource = None"
  shows "filterRevisionsBaseOnTrafficStatus resource revs = None
     \<and> (rs ''configurations'' = None \<or> rs ''revisions'' \<noteq> None \<longrightarrow>
          getKnativeTopologyNodeItems resource NodeType_KnService d (Some rs) =
            Inr [\<lparr>nodeId = uid (metadata resource), nodeType = NodeType_KnService,
                   nodeResource = Some resource, nodeData = d, children = [], isGroup = True\<rparr>])"
proof (intro conjI impI)
  show f: "filterRevisionsBaseOnTrafficStatus resource revs = None" for revs
    using assms by (simp add: filterRevisionsBaseOnTrafficStatus_def)
  assume "rs ''configurations'' = None \<or> rs ''revisions'' \<noteq> None"
  then show "getKnativeTopologyNodeItems resource NodeType_KnService d (Some rs) =
            Inr [\<lparr>nodeId = uid (metadata resource), nodeType = NodeType_KnService,
                   nodeResource = Some resource, nodeData = d, children = [], isGroup = True\<rparr>]"
    by (auto simp: getKnativeTopologyNodeItems_def f getTopologyNodeItem_def
        getKnNodeModelProps_def dataOf_def Let_def split: option.splits)
qed

theorem no_traffic_single_node_witness:
  "getKnativeTopologyNodeItems (exampleResource ''Service'' ''svc-1'' ''svc'' []) NodeType_KnService None
     (Some [''configurations'' \<mapsto> [exampleResource ''Configuration'' ''cfg-1'' ''cfg'' [''svc-1'']],
            ''revisions'' \<mapsto> [exampleResource ''Revision'' ''rev-1'' ''r1'' [''cfg-1'']]])
   = Inr [\<lparr>nodeId = Some ''svc-1'', nodeType = NodeType_KnService,
            nodeResource = Some (exampleResource ''Service'' ''svc-1'' ''svc'' []),
            nodeData = None, children = [], isGroup = True\<rparr>]"
proof -
  let ?svc = "exampleResource ''Service'' ''svc-1'' ''svc'' []"
  let ?rs = "[''configurations'' \<mapsto> [exampleResource ''Configuration'' ''cfg-1'' ''cfg'' [''svc-1'']],
            ''revisions'' \<mapsto> [exampleResource ''Revision'' ''rev-1'' ''r1'' [''cfg-1'']]]"
  have t: "statusTraffic ?svc = None"
    by (simp add: statusTraffic_def example_defs)
  have c: "?rs ''configurations'' = None \<or> ?rs ''revisions'' \<noteq> None"
    by simp
  from no_traffic_single_node[OF t, of _ ?rs None] c
  have "getKnativeTopologyNodeItems ?svc NodeType_KnService None (Some ?rs) =
            Inr [\<lparr>nodeId = uid (metadata ?svc), nodeType = NodeType_KnService,
                   nodeResource = Some ?svc, nodeData = None, children = [], isGroup = True\<rparr>]"
    by blast
  then show ?thesis by (simp add: example_defs)
qed






subsection \<open>A service with two configurations\<close>





subsection \<open>Creating a trigger\<close>

text \<open>
  C7. \<open>createEventingTrigger\<close> issues one create, of a trigger named
  \<open><broker-name>-trigger-<random>\<close> in the broker's namespace, whose spec names the
  broker and has the service as subscriber. When the create fails, the error message goes
  to \<open>errorModal\<close> and the promise resolves with an empty result; the promise never
  rejects.
\<close>

theorem createEventingTrigger_reports_failure:
  "\<exists>trigger.
      apiVersion trigger = Some (apiGroup TM @ ''/'' @ modelApiVersion TM)
    \<and> kind trigger = Some (modelKind TM)
    \<and> name (metadata trigger) = Some (interpolate (name (metadata brokerRes)) @ ''-trigger-'' @ rnd)
    \<and> namespace (metadata trigger) = namespace (metadata brokerRes)
    \<and> specBroker trigger = name (metadata brokerRes)
    \<and> specSubscriberRef trigger =
          Some \<lparr>refApiVersion = Some (apiGroup SM @ ''/'' @ modelApiVersion SM),
                refKind = Some (modelKind SM),
                refName = name (metadata service)\<rparr>
    \<and> createEventingTrigger TM SM rnd k8sCreate brokerRes service =
        (case k8sCreate TM trigger of
           Inr created \<Rightarrow> ([K8sCreate TM trigger], Resolved (Some created))
         | Inl err \<Rightarrow>
             ([K8sCreate TM trigger, ErrorModal ''Error creating trigger'' (message err)],
              Resolved None))
    \<and> (\<forall>e. snd (createEventingTrigger TM SM rnd k8sCreate brokerRes service) \<noteq> Rejected e)
    \<and> ((\<exists>err. k8sCreate TM trigger = Inl err) \<longleftrightarrow>
          snd (createEventingTrigger TM SM rnd k8sCreate brokerRes service) = Resolved None)"
  unfolding createEventingTrigger_def Let_def
  by (rule exI, intro conjI; (rule refl)?)
     (auto simp: specBroker_def specSubscriberRef_def emptySpec_def emptyMetadata_def
       split: sum.splits)

theorem createEventingTrigger_reports_failure_witness:
  "createEventingTrigger exampleTriggerModel exampleServiceModel ''x7k2q'' exampleUpdateFails
     (exampleResource ''Broker'' ''b-1'' ''default'' [])
     (exampleResource ''Service'' ''svc-1'' ''svc'' [])
   = ([K8sCreate exampleTriggerModel
         \<lparr>apiVersion = Some ''eventing.knative.dev/v1beta1'', kind = Some ''Trigger'',
          metadata = emptyMetadata\<lparr>name := Some ''default-trigger-x7k2q'', namespace := Some ''ns''\<rparr>,
          spec = Some (emptySpec\<lparr>broker := Some ''default'',
                                  subscriberRef := Some \<lparr>refApiVersion = Some ''serving.knative.dev/v1'',
                                                         refKind = Some ''Service'',
                                                         refName = Some ''svc''\<rparr>\<rparr>),
          status = None, nodeTypeTag = None\<rparr>,
       ErrorModal ''Error creating trigger'' (Some ''409 Conflict'')],
      Resolved None)"
proof -
  let ?b = "exampleResource ''Broker'' ''b-1'' ''default'' []"
  let ?s = "exampleResource ''Service'' ''svc-1'' ''svc'' []"
  let ?run = "createEventingTrigger exampleTriggerModel exampleServiceModel ''x7k2q'' exampleUpdateFails ?b ?s"
  from createEventingTrigger_reports_failure[of exampleTriggerModel ?b "''x7k2q''" exampleServiceModel ?s
      exampleUpdateFails]
  obtain trigger where
    t: "?run = (case exampleUpdateFails exampleTriggerModel trigger of
           Inr created \<Rightarrow> ([K8sCreate exampleTriggerModel trigger], Resolved (Some created))
         | Inl err \<Rightarrow>
             ([K8sCreate exampleTriggerModel trigger, ErrorModal ''Error creating trigger'' (message err)],
              Resolved None))"
    by blast
  then have "snd ?run = Resolved None"
    by (simp add: exampleUpdateFails_def)
  then show ?thesis
    by (simp add: createEventingTrigger_def exampleUpdateFails_def example_defs interpolate_def
        exampleTriggerModel_def exampleServiceModel_def)
qed

subsection \<open>Connecting an event source to a sink\<close>

text \<open>
  C8. \<open>createKnativeEventSourceSink\<close> rejects without any update exactly when the
  source is missing, the target is missing, or the two are the same object. Otherwise it
  issues one update, whose payload is the source without its \<open>status\<close> and with
  \<open>spec.sink\<close> set to \<open>{uri}\<close> for a sink-uri target and to
  \<open>{ref: {apiVersion, kind, name}}\<close> of the target otherwise; every other key of the
  source and of its spec is unchanged, and the promise settles as the update does.
\<close>

theorem createKnativeEventSourceSink_rejects_or_updates:
  "(createKnativeEventSourceSink k8sUpdate modelOf sourceV targetV = ([], Rejected None)
      \<longleftrightarrow> sourceV = None \<or> targetV = None \<or> map_option addr sourceV = map_option addr targetV)
   \<and> (\<forall>s t. sourceV = Some s \<and> targetV = Some t \<and> addr s \<noteq> addr t \<longrightarrow>
         (\<exists>payload.
            createKnativeEventSourceSink k8sUpdate modelOf sourceV targetV =
              ([K8sUpdate (modelOf (content s)) payload],
               settle (k8sUpdate (modelOf (content s)) payload))
          \<and> status payload = None
          \<and> apiVersion payload = apiVersion (content s)
          \<and> kind payload = kind (content s)
          \<and> metadata payload = metadata (content s)
          \<and> nodeTypeTag payload = nodeTypeTag (content s)
          \<and> spec payload =
               Some ((case spec (content s) of None \<Rightarrow> emptySpec | Some sp \<Rightarrow> sp)
                       \<lparr>sink := Some (sinkFor (content t))\<rparr>)))"
proof (intro conjI allI impI)
  show "createKnativeEventSourceSink k8sUpdate modelOf sourceV targetV = ([], Rejected None)
      \<longleftrightarrow> sourceV = None \<or> targetV = None \<or> map_option addr sourceV = map_option addr targetV"
    by (cases sourceV; cases targetV)
      (auto simp: createKnativeEventSourceSink_def sameObject_def Let_def)
next
  fix s t
  assume "sourceV = Some s \<and> targetV = Some t \<and> addr s \<noteq> addr t"
  then show "\<exists>payload.
            createKnativeEventSourceSink k8sUpdate modelOf sourceV targetV =
              ([K8sUpdate (modelOf (content s)) payload],
               settle (k8sUpdate (modelOf (content s)) payload))
          \<and> status payload = None
          \<and> apiVersion payload = apiVersion (content s)
          \<and> kind payload = kind (content s)
          \<and> metadata payload = metadata (content s)
          \<and> nodeTypeTag payload = nodeTypeTag (content s)
          \<and> spec payload =
               Some ((case spec (content s) of None \<Rightarrow> emptySpec | Some sp \<Rightarrow> sp)
                       \<lparr>sink := Some (sinkFor (content t))\<rparr>)"
    by (auto simp: createKnativeEventSourceSink_def sameObject_def Let_def sinkFor_def)
qed

theorem createKnativeEventSourceSink_rejects_or_updates_witness:
  "createKnativeEventSourceSink exampleUpdateOk exampleModelOf
       (Some (JsObject 1 (exampleResource ''PingSource'' ''src-1'' ''ping'' [])))
       (Some (JsObject 1 (exampleResource ''PingSource'' ''src-1'' ''ping'' [])))
     = ([], Rejected None)
   \<and> (\<exists>payload.
        createKnativeEventSourceSink exampleUpdateOk exampleModelOf
          (Some (JsObject 1 (withSinkRef (exampleResource ''PingSource'' ''src-1'' ''ping'' []) ''old'')))
          (Some (JsObject 2 (sinkUriObject ''http%3A%2F%2Fx'' ''ns'' ''http://x'')))
        = ([K8sUpdate (exampleModelOf (exampleResource ''PingSource'' ''src-1'' ''ping'' [])) payload],
           Resolved payload)
      \<and> status payload = None
      \<and> metadata payload = exampleMetadata ''src-1'' ''ping'' []
      \<and> spec payload =
          Some (emptySpec\<lparr>sink := Some \<lparr>ref = None, uri = Some ''http://x'', sinkName = None\<rparr>,
                          otherSpec := [(''schedule'', ''* * * * *'')]\<rparr>))"
proof -
  let ?p = "exampleResource ''PingSource'' ''src-1'' ''ping'' []"
  let ?src = "withSinkRef ?p ''old''"
  let ?tgt = "sinkUriObject ''http%3A%2F%2Fx'' ''ns'' ''http://x''"
  note T = createKnativeEventSourceSink_rejects_or_updates[of exampleUpdateOk exampleModelOf
      "Some (JsObject 1 ?src)" "Some (JsObject 2 ?tgt)", THEN conjunct2, rule_format,
      of "JsObject 1 ?src" "JsObject 2 ?tgt"]
  have "\<exists>payload.
            createKnativeEventSourceSink exampleUpdateOk exampleModelOf
              (Some (JsObject 1 ?src)) (Some (JsObject 2 ?tgt)) =
              ([K8sUpdate (exampleModelOf (content (JsObject 1 ?src))) payload],
               settle (exampleUpdateOk (exampleModelOf (content (JsObject 1 ?src))) payload))
          \<and> status payload = None
          \<and> apiVersion payload = apiVersion (content (JsObject 1 ?src))
          \<and> kind payload = kind (content (JsObject 1 ?src))
          \<and> metadata payload = metadata (content (JsObject 1 ?src))
          \<and> nodeTypeTag payload = nodeTypeTag (content (JsObject 1 ?src))
          \<and> spec payload =
               Some ((case spec (content (JsObject 1 ?src)) of None \<Rightarrow> emptySpec | Some sp \<Rightarrow> sp)
                       \<lparr>sink := Some (sinkFor (content (JsObject 2 ?tgt)))\<rparr>)"
    by (rule T) simp
  then obtain payload where
    run: "createKnativeEventSourceSink exampleUpdateOk exampleModelOf
              (Some (JsObject 1 ?src)) (Some (JsObject 2 ?tgt)) =
              ([K8sUpdate (exampleModelOf (content (JsObject 1 ?src))) payload],
               settle (exampleUpdateOk (exampleModelOf (content (JsObject 1 ?src))) payload))"
    and st: "status payload = None"
    and md: "metadata payload = metadata (content (JsObject 1 ?src))"
    and sp: "spec payload =
               Some ((case spec (content (JsObject 1 ?src)) of None \<Rightarrow> emptySpec | Some sp \<Rightarrow> sp)
                       \<lparr>sink := Some (sinkFor (content (JsObject 2 ?tgt)))\<rparr>)"
    by (elim exE conjE)
  have m: "exampleModelOf (content (JsObject 1 ?src)) = exampleModelOf ?p"
    by (simp add: exampleModelOf_def withSinkRef_def)
  have run': "createKnativeEventSourceSink exampleUpdateOk exampleModelOf
              (Some (JsObject 1 ?src)) (Some (JsObject 2 ?tgt)) =
              ([K8sUpdate (exampleModelOf ?p) payload], Resolved payload)"
    unfolding run m by (simp add: settle_def exampleUpdateOk_def)
  have md': "metadata payload = exampleMetadata ''src-1'' ''ping'' []"
    unfolding md by (simp add: withSinkRef_def exampleResource_def)
  have sk: "sinkFor ?tgt = \<lparr>ref = None, uri = Some ''http://x'', sinkName = None\<rparr>"
    by (simp add: sinkFor_def sinkUriObject_def)
  have sp': "spec payload =
          Some (emptySpec\<lparr>sink := Some \<lparr>ref = None, uri = Some ''http://x'', sinkName = None\<rparr>,
                          otherSpec := [(''schedule'', ''* * * * *'')]\<rparr>)"
    unfolding sp by (simp add: withSinkRef_def sk)
  have b: "createKnativeEventSourceSink exampleUpdateOk exampleModelOf
       (Some (JsObject 1 ?p)) (Some (JsObject 1 ?p)) = ([], Rejected None)"
    using createKnativeEventSourceSink_rejects_or_updates[of exampleUpdateOk exampleModelOf
      "Some (JsObject 1 ?p)" "Some (JsObject 1 ?p)", THEN conjunct1]
    by simp
  from b run' st md' sp' show ?thesis by blast
qed

subsection \<open>Sink-uri nodes of event sources\<close>

lemma encodeURIComponent_nonempty: "u \<noteq> [] \<Longrightarrow> encodeURIComponent u \<noteq> []"
  by (cases u) (auto simp: encodeURIComponent_def)

lemma getSinkTargetUid_inv:
  assumes "sinkNodesInv nodes" "u \<noteq> []"
  shows "getSinkTargetUid nodes (Some u) =
     (if u \<in> sinkUrisOf nodes then encodeURIComponent u else [])"
proof (cases "List.find (\<lambda>n. Some u = nodeSinkUri n) nodes")
  case None
  then have "u \<notin> sinkUrisOf nodes"
    by (auto simp: find_None_iff sinkUrisOf_def)
  then show ?thesis using None by (simp add: getSinkTargetUid_def)
next
  case (Some n)
  then have n: "n \<in> set nodes" "nodeSinkUri n = Some u"
    by (auto simp: find_Some_iff)
  then have "sinkOk n" using assms(1) by (simp add: sinkNodesInv_def list_all_iff)
  then have "nodeId n = Some (encodeURIComponent u)"
    using n(2) by (simp add: sinkOk_def)
  moreover have "u \<in> sinkUrisOf nodes"
    using n by (force simp: sinkUrisOf_def)
  ultimately show ?thesis using Some by (simp add: getSinkTargetUid_def)
qed

lemma sinkNodesInv_append_plain:
  assumes "sinkNodesInv nodes" "nodeSinkUri n = None" "nodeType n \<noteq> NodeType_SinkUri"
  shows "sinkNodesInv (nodes @ [n])" "sinkUrisOf (nodes @ [n]) = sinkUrisOf nodes"
  using assms by (auto simp: sinkNodesInv_def sinkOk_def sinkUrisOf_def)

lemma sinkNodesInv_append_sink:
  assumes "sinkNodesInv nodes" "nodeSinkUri n = Some u" "u \<noteq> []" "u \<notin> sinkUrisOf nodes"
    "nodeId n = Some (encodeURIComponent u)" "nodeType n = NodeType_SinkUri"
  shows "sinkNodesInv (nodes @ [n])" "sinkUrisOf (nodes @ [n]) = insert u (sinkUrisOf nodes)"
  using assms by (auto simp: sinkNodesInv_def sinkOk_def sinkUrisOf_def)

lemma group_node_plain:
  "getTopologyGroupItems res = Some g \<Longrightarrow> nodeSinkUri g = None \<and> nodeType g \<noteq> NodeType_SinkUri"
  by (auto simp: getTopologyGroupItems_def nodeSinkUri_def NodeType_defs split: if_splits)

lemma map_update_same:
  "i < length xs \<Longrightarrow> f y = f (xs ! i) \<Longrightarrow> map f (xs[i := y]) = map f xs"
  by (simp add: map_update list_update_same_conv)

lemma findIndex_lt: "findIndex P xs = Some i \<Longrightarrow> i < length xs"
  by (induction xs arbitrary: i) (auto split: if_splits)

lemma sinkOk_cong:
  "nodeSinkUri a = nodeSinkUri b \<Longrightarrow> nodeId a = nodeId b \<Longrightarrow> nodeType a = nodeType b
   \<Longrightarrow> sinkOk a = sinkOk b"
  by (simp add: sinkOk_def split: option.splits)

lemma list_all_update:
  "list_all P xs \<Longrightarrow> P y \<Longrightarrow> list_all P (xs[i := y])"
  by (induction xs arbitrary: i) (auto split: nat.splits)

lemma sinkNodesInv_map:
  "sinkNodesInv nodes \<longleftrightarrow>
     list_all sinkOk nodes \<and> distinct (filter (\<lambda>x. x \<noteq> None) (map nodeSinkUri nodes))"
  by (simp add: sinkNodesInv_def)

lemma sinkUrisOf_map: "sinkUrisOf nodes = {u. Some u \<in> set (map nodeSinkUri nodes)}"
  by (simp add: sinkUrisOf_def)

lemma mergeGroup_cases:
  "mergeGroup (getTopologyGroupItems res) nodes = nodes
   \<or> (\<exists>g. nodeSinkUri g = None \<and> nodeType g \<noteq> NodeType_SinkUri
          \<and> mergeGroup (getTopologyGroupItems res) nodes = nodes @ [g])
   \<or> (\<exists>i n. i < length nodes \<and> nodeSinkUri n = nodeSinkUri (nodes ! i)
          \<and> nodeId n = nodeId (nodes ! i) \<and> nodeType n = nodeType (nodes ! i)
          \<and> mergeGroup (getTopologyGroupItems res) nodes = nodes[i := n])"
proof (cases "getTopologyGroupItems res")
  case None
  then show ?thesis by (simp add: mergeGroup_def)
next
  case (Some g)
  note plain = group_node_plain[OF Some]
  show ?thesis
  proof (cases "findIndex (\<lambda>n. isGroup n \<and> nodeId n = nodeId g) nodes")
    case None
    then have "mergeGroup (getTopologyGroupItems res) nodes = nodes @ [g]"
      using Some by (simp add: mergeGroup_def)
    then show ?thesis using plain by blast
  next
    case (Some i)
    define n where "n = (nodes ! i)\<lparr>children := foldl (\<lambda>cs c. if c \<in> set cs then cs else cs @ [c])
                             (children (nodes ! i)) (children g)\<rparr>"
    have il: "i < length nodes" by (rule findIndex_lt[OF Some])
    have eq: "mergeGroup (getTopologyGroupItems res) nodes = nodes[i := n]"
      using \<open>getTopologyGroupItems res = Some g\<close> Some by (simp add: mergeGroup_def n_def)
    have "nodeSinkUri n = nodeSinkUri (nodes ! i)" "nodeId n = nodeId (nodes ! i)"
      "nodeType n = nodeType (nodes ! i)"
      by (simp_all add: nodeSinkUri_def n_def)
    then show ?thesis using il eq by blast
  qed
qed

lemma mergeGroup_inv:
  assumes "sinkNodesInv nodes"
  shows "sinkNodesInv (mergeGroup (getTopologyGroupItems res) nodes)
    \<and> sinkUrisOf (mergeGroup (getTopologyGroupItems res) nodes) = sinkUrisOf nodes"
proof -
  consider
    (same) "mergeGroup (getTopologyGroupItems res) nodes = nodes"
  | (app) g where "nodeSinkUri g = None" "nodeType g \<noteq> NodeType_SinkUri"
      "mergeGroup (getTopologyGroupItems res) nodes = nodes @ [g]"
  | (upd) i n where "i < length nodes" "nodeSinkUri n = nodeSinkUri (nodes ! i)"
      "nodeId n = nodeId (nodes ! i)" "nodeType n = nodeType (nodes ! i)"
      "mergeGroup (getTopologyGroupItems res) nodes = nodes[i := n]"
    using mergeGroup_cases[of res nodes] by blast
  then show ?thesis
  proof cases
    case same
    then show ?thesis using assms by simp
  next
    case app
    then show ?thesis
      using sinkNodesInv_append_plain[OF assms app(1,2)] by simp
  next
    case upd
    have "sinkOk (nodes ! i)"
      using assms upd(1) by (simp add: sinkNodesInv_def list_all_length)
    then have "sinkOk n"
      using sinkOk_cong[OF upd(2,3,4)] by simp
    then have a: "list_all sinkOk (nodes[i := n])"
      using assms by (simp add: sinkNodesInv_def list_all_update)
    have m: "map nodeSinkUri (nodes[i := n]) = map nodeSinkUri nodes"
      by (rule map_update_same[OF upd(1,2)])
    have "sinkNodesInv (nodes[i := n])"
      unfolding sinkNodesInv_map m using a assms by (simp add: sinkNodesInv_def)
    moreover have "sinkUrisOf (nodes[i := n]) = sinkUrisOf nodes"
      unfolding sinkUrisOf_map m by (rule refl)
    ultimately show ?thesis unfolding upd(5) by blast
  qed
qed

lemma encode_example: "encodeURIComponent ''http://x'' = ''http%3A%2F%2Fx''"
  by (simp add: encodeURIComponent_def uriUnreserved_def hexDigit_def)

lemma eventSource_nodes:
  "getKnativeTopologyNodeItems res NodeType_EventSource d (Some rs) =
     Inr [getTopologyNodeItem res NodeType_EventSource d (getKnNodeModelProps NodeType_EventSource) []]"
  by (simp add: getKnativeTopologyNodeItems_def NodeType_defs)

lemma eventSource_node_plain:
  "nodeSinkUri (getTopologyNodeItem res NodeType_EventSource
      (Some (createTopologyNodeData res item NodeType_EventSource)) p []) = None"
  "nodeType (getTopologyNodeItem res NodeType_EventSource d p []) \<noteq> NodeType_SinkUri"
  by (simp_all add: nodeSinkUri_def getTopologyNodeItem_def createTopologyNodeData_def NodeType_defs)

lemma getEventTopologyEdgeItems_Inr:
  "getEventTopologyEdgeItems res c = Inr es \<Longrightarrow> c \<noteq> None \<and> es = eventTopologyEdges res (orEmpty c)"
  by (cases c) (auto simp: getEventTopologyEdgeItems_def dataOf_def orEmpty_def)

lemma getEventTopologyEdgeItems_Some:
  "c \<noteq> None \<Longrightarrow> getEventTopologyEdgeItems res c = Inr (eventTopologyEdges res (orEmpty c))"
  by (cases c) (auto simp: getEventTopologyEdgeItems_def dataOf_def orEmpty_def)

lemma sinkEdgeFor_falsy: "\<not> truthy (specSinkUri res) \<Longrightarrow> sinkEdgeFor res = []"
  by (simp add: sinkEdgeFor_def getSinkUriTopologyEdgeItems_def)

lemma sinkEdgeFor_Some:
  "specSinkUri res = Some u \<Longrightarrow> sinkEdgeFor res = getSinkUriTopologyEdgeItems res (encodeURIComponent u)"
  by (simp add: sinkEdgeFor_def orEmptyString_def)

lemma sinkUriStep_inv:
  assumes inv: "sinkNodesInv nodes"
    and run: "sinkUriStep ext rs res d nodes edges = Inr (nodes', edges')"
  shows "sinkNodesInv nodes'
    \<and> sinkUrisOf nodes' = sinkUrisOf nodes \<union> {u. specSinkUri res = Some u \<and> u \<noteq> []}
    \<and> edges' = edges @ sinkEdgeFor res"
proof (cases "truthy (specSinkUri res)")
  case False
  then have eq: "nodes' = nodes" "edges' = edges"
    using run by (simp_all add: sinkUriStep_def Let_def)
  have e: "{u. specSinkUri res = Some u \<and> u \<noteq> []} = {}"
    using False by (auto simp: truthy_def)
  show ?thesis
    unfolding eq e sinkEdgeFor_falsy[OF False] using inv by simp
next
  case True
  then obtain u where u: "specSinkUri res = Some u" "u \<noteq> []"
    by (auto simp: truthy_def split: option.splits)
  have set_u: "{v. specSinkUri res = Some v \<and> v \<noteq> []} = {u}"
    using u by auto
  note tgt = getSinkTargetUid_inv[OF inv u(2)]
  show ?thesis
  proof (cases "u \<in> sinkUrisOf nodes")
    case True
    then have "getSinkTargetUid nodes (Some u) = encodeURIComponent u"
      using tgt by simp
    moreover have "encodeURIComponent u \<noteq> []"
      by (rule encodeURIComponent_nonempty[OF u(2)])
    ultimately have "sinkUriStep ext rs res d nodes edges =
        Inr (nodes, edges @ getSinkUriTopologyEdgeItems res (encodeURIComponent u))"
      using u \<open>truthy (specSinkUri res)\<close> by (simp add: sinkUriStep_def Let_def)
    then have "nodes' = nodes" "edges' = edges @ sinkEdgeFor res"
      using run sinkEdgeFor_Some[OF u(1)] by simp_all
    then show ?thesis using inv True set_u by auto
  next
    case False
    then have t0: "getSinkTargetUid nodes (Some u) = []"
      using tgt by simp
    obtain ob where ob: "itemObj (dataResources d) = Some ob"
      using run u \<open>truthy (specSinkUri res)\<close> t0
      by (cases "itemObj (dataResources d)") (simp_all add: sinkUriStep_def Let_def)
    define n where "n = hd (getSinkUriTopologyNodeItems NodeType_SinkUri (encodeURIComponent u)
        \<lparr>dataId = Some (encodeURIComponent u),
         dataType = NodeType_SinkUri,
         dataResource = Some (sinkUriObject (encodeURIComponent u)
                                (orEmptyString (namespace (metadata ob))) u),
         dataResources =
           (dataResources d)\<lparr>itemObj := Some (sinkUriObject (encodeURIComponent u)
                                (orEmptyString (namespace (metadata ob))) u),
                             itemEventSources := Some (getEventSourcesData ext u rs)\<rparr>,
         dataSinkUri = Some u\<rparr>)"
    have "sinkUriStep ext rs res d nodes edges =
        Inr (nodes @ [n], edges @ getSinkUriTopologyEdgeItems res (encodeURIComponent u))"
      using u \<open>truthy (specSinkUri res)\<close> t0 ob
      by (simp add: sinkUriStep_def Let_def n_def getSinkUriTopologyNodeItems_def orEmptyString_def)
    then have eq: "nodes' = nodes @ [n]" "edges' = edges @ sinkEdgeFor res"
      using run sinkEdgeFor_Some[OF u(1)] by simp_all
    have n: "nodeSinkUri n = Some u" "nodeId n = Some (encodeURIComponent u)"
      "nodeType n = NodeType_SinkUri"
      by (simp_all add: n_def getSinkUriTopologyNodeItems_def nodeSinkUri_def)
    note app = sinkNodesInv_append_sink[OF inv n(1) u(2) False n(2,3)]
    show ?thesis
      unfolding eq(1) using app eq(2) set_u by auto
  qed
qed

lemma sinkUriStep_total:
  assumes "itemObj (dataResources d) \<noteq> None"
  shows "\<exists>p. sinkUriStep ext rs res d nodes edges = Inr p"
  using assms by (auto simp: sinkUriStep_def Let_def split: option.splits)

lemma eventSourceStep_inv:
  assumes inv: "sinkNodesInv (modelNodes m)"
    and run: "eventSourceStep ext rs m res item = Inr m'"
  shows "sinkNodesInv (modelNodes m')
    \<and> sinkUrisOf (modelNodes m') = sinkUrisOf (modelNodes m) \<union> {u. specSinkUri res = Some u \<and> u \<noteq> []}
    \<and> modelEdges m' = modelEdges m @ eventSourceEdges ext rs res"
proof -
  define d where "d = createTopologyNodeData res item NodeType_EventSource"
  define n where "n = getTopologyNodeItem res NodeType_EventSource (Some d)
      (getKnNodeModelProps NodeType_EventSource) []"
  have nd: "getKnativeTopologyNodeItems res NodeType_EventSource (Some d) (Some rs) = Inr [n]"
    by (simp add: eventSource_nodes n_def)
  obtain es1 where es1: "getEventTopologyEdgeItems res (rs ''ksservices'') = Inr es1"
    using run nd by (cases "getEventTopologyEdgeItems res (rs ''ksservices'')")
      (simp_all add: eventSourceStep_def Let_def d_def[symmetric])
  obtain nodes2 edges2 where st: "sinkUriStep ext rs res d (modelNodes m @ [n]) (modelEdges m @ es1)
      = Inr (nodes2, edges2)"
    using run nd es1
    by (cases "sinkUriStep ext rs res d (modelNodes m @ [n]) (modelEdges m @ es1)")
      (auto simp: eventSourceStep_def Let_def d_def[symmetric])
  obtain es2 where es2: "getEventTopologyEdgeItems res (rs ''brokers'') = Inr es2"
    using run nd es1 st by (cases "getEventTopologyEdgeItems res (rs ''brokers'')")
      (simp_all add: eventSourceStep_def Let_def d_def[symmetric])
  have m': "m' = \<lparr>modelNodes = mergeGroup (getTopologyGroupItems res) nodes2,
                  modelEdges = edges2 @ channelEdges ext rs res @ es2\<rparr>"
    using run nd es1 st es2 by (simp add: eventSourceStep_def Let_def d_def[symmetric])
  have plain: "nodeSinkUri n = None" "nodeType n \<noteq> NodeType_SinkUri"
    unfolding n_def d_def by (rule eventSource_node_plain)+
  note a = sinkNodesInv_append_plain[OF inv plain]
  note b = sinkUriStep_inv[OF a(1) st]
  note c = mergeGroup_inv[of nodes2 res, OF conjunct1[OF b]]
  have e1: "es1 = eventTopologyEdges res (orEmpty (rs ''ksservices''))"
    using getEventTopologyEdgeItems_Inr[OF es1] by simp
  have e2: "es2 = eventTopologyEdges res (orEmpty (rs ''brokers''))"
    using getEventTopologyEdgeItems_Inr[OF es2] by simp
  have "modelEdges m' = modelEdges m @ eventSourceEdges ext rs res"
    using b by (simp add: m' e1 e2 eventSourceEdges_def)
  moreover have "sinkNodesInv (modelNodes m')"
    using c by (simp add: m')
  moreover have "sinkUrisOf (modelNodes m') =
      sinkUrisOf (modelNodes m) \<union> {u. specSinkUri res = Some u \<and> u \<noteq> []}"
    using c b a(2) by (simp add: m')
  ultimately show ?thesis by blast
qed

lemma eventSourceStep_total:
  assumes "itemObj item \<noteq> None" "rs ''ksservices'' \<noteq> None" "rs ''brokers'' \<noteq> None"
  shows "\<exists>m'. eventSourceStep ext rs m res item = Inr m'"
proof -
  define d where "d = createTopologyNodeData res item NodeType_EventSource"
  define n where "n = getTopologyNodeItem res NodeType_EventSource (Some d)
      (getKnNodeModelProps NodeType_EventSource) []"
  have nd: "getKnativeTopologyNodeItems res NodeType_EventSource (Some d) (Some rs) = Inr [n]"
    by (simp add: eventSource_nodes n_def)
  have "itemObj (dataResources d) \<noteq> None"
    using assms(1) by (simp add: d_def createTopologyNodeData_def)
  from sinkUriStep_total[OF this] obtain p where
    p: "sinkUriStep ext rs res d (modelNodes m @ [n])
          (modelEdges m @ eventTopologyEdges res (orEmpty (rs ''ksservices''))) = Inr p"
    by blast
  show ?thesis
    using nd p getEventTopologyEdgeItems_Some[OF assms(2)] getEventTopologyEdgeItems_Some[OF assms(3)]
    by (cases p) (simp add: eventSourceStep_def Let_def d_def[symmetric])
qed

lemma spreadItem_obj: "itemObj a \<noteq> None \<Longrightarrow> itemObj (spreadItem a p) \<noteq> None"
  by (simp add: spreadItem_def orElse_def split: option.splits)

lemma foldl_utils_obj:
  "itemObj item \<noteq> None \<Longrightarrow>
   itemObj (foldl (\<lambda>acc util. case util resource resources of
                              None \<Rightarrow> acc
                            | Some patch \<Rightarrow> spreadItem acc patch) item us) \<noteq> None"
proof (induction us arbitrary: item)
  case Nil
  then show ?case by simp
next
  case (Cons u us)
  show ?case
  proof (cases "u resource resources")
    case None
    then show ?thesis using Cons by simp
  next
    case (Some p)
    then show ?thesis
      using Cons.IH[OF spreadItem_obj[OF Cons.prems, of p]] by simp
  qed
qed

lemma applyUtils_obj:
  "itemObj item \<noteq> None \<Longrightarrow> itemObj (applyUtils utils resource resources item) \<noteq> None"
  by (cases utils) (simp_all add: applyUtils_def foldl_utils_obj)

lemma getKnativeServiceData_total:
  assumes "rs ''configurations'' \<noteq> None" "rs ''revisions'' \<noteq> None"
  shows "\<exists>kn. getKnativeServiceData ext res rs utils = Inr kn"
  using assms
  by (auto simp: getKnativeServiceData_def dataOf_def Let_def split: list.splits)

lemma createKnativeDeploymentItems_total:
  assumes "rs ''deployments'' \<noteq> None" "rs ''configurations'' \<noteq> None" "rs ''revisions'' \<noteq> None"
  shows "\<exists>item. createKnativeDeploymentItems ext res rs utils = Inr item \<and> itemObj item \<noteq> None"
proof -
  obtain deps where deps: "rs ''deployments'' = Some deps"
    using assms(1) by blast
  show ?thesis
  proof (cases "getOwnedResources res deps")
    case Nil
    obtain kn where kn: "getKnativeServiceData ext res rs utils = Inr kn"
      using getKnativeServiceData_total[OF assms(2,3)] by blast
    have "createKnativeDeploymentItems ext res rs utils =
        Inr (spreadItem (emptyItem\<lparr>itemObj := Some res, itemBuildConfigs := Some [],
                                   itemRoutes := Some [], itemServices := Some []\<rparr>) kn)"
      by (simp add: createKnativeDeploymentItems_def deps dataOf_def Nil kn)
    moreover have "itemObj (spreadItem (emptyItem\<lparr>itemObj := Some res, itemBuildConfigs := Some [],
                                   itemRoutes := Some [], itemServices := Some []\<rparr>) kn) \<noteq> None"
      by (rule spreadItem_obj) simp
    ultimately show ?thesis by blast
  next
    case (Cons d ds)
    have "\<exists>X. createKnativeDeploymentItems ext res rs utils = Inr (applyUtils utils res rs X)
        \<and> itemObj X \<noteq> None"
      unfolding createKnativeDeploymentItems_def deps dataOf_def Let_def
      by (simp add: Cons; (intro exI conjI, rule refl, simp)?)
    then show ?thesis
      using applyUtils_obj by blast
  qed
qed

lemma transformStep_eventSource:
  "transformStep ext NodeType_EventSource rs utils m res =
     (case createKnativeDeploymentItems ext res rs utils of
        Inl e \<Rightarrow> Inl e
      | Inr item \<Rightarrow> eventSourceStep ext rs m res item)"
  by (cases "createKnativeDeploymentItems ext res rs utils") (simp_all add: transformStep_def)

lemma transformStep_inv:
  assumes "sinkNodesInv (modelNodes m)"
    and "transformStep ext NodeType_EventSource rs utils m res = Inr m'"
  shows "sinkNodesInv (modelNodes m')
    \<and> sinkUrisOf (modelNodes m') = sinkUrisOf (modelNodes m) \<union> {u. specSinkUri res = Some u \<and> u \<noteq> []}
    \<and> modelEdges m' = modelEdges m @ eventSourceEdges ext rs res"
proof -
  obtain item where "eventSourceStep ext rs m res item = Inr m'"
    using assms(2) unfolding transformStep_eventSource
    by (cases "createKnativeDeploymentItems ext res rs utils") simp_all
  then show ?thesis by (rule eventSourceStep_inv[OF assms(1)])
qed

lemma transformStep_total:
  assumes "rs ''deployments'' \<noteq> None" "rs ''configurations'' \<noteq> None" "rs ''revisions'' \<noteq> None"
    "rs ''ksservices'' \<noteq> None" "rs ''brokers'' \<noteq> None"
  shows "\<exists>m'. transformStep ext NodeType_EventSource rs utils m res = Inr m'"
proof -
  obtain item where i: "createKnativeDeploymentItems ext res rs utils = Inr item" "itemObj item \<noteq> None"
    using createKnativeDeploymentItems_total[OF assms(1,2,3)] by blast
  show ?thesis
    unfolding transformStep_eventSource i(1)
    using eventSourceStep_total[OF i(2) assms(4,5)] by simp
qed

lemma forEach_transform_inv:
  assumes "sinkNodesInv (modelNodes m)"
    and "forEachE (transformStep ext NodeType_EventSource rs utils) xs m = Inr m'"
  shows "sinkNodesInv (modelNodes m')
    \<and> sinkUrisOf (modelNodes m') =
        sinkUrisOf (modelNodes m) \<union> {u. u \<noteq> [] \<and> (\<exists>r \<in> set xs. specSinkUri r = Some u)}
    \<and> modelEdges m' = modelEdges m @ concat (map (eventSourceEdges ext rs) xs)"
  using assms
proof (induction xs arbitrary: m)
  case Nil
  then show ?case by simp
next
  case (Cons x xs)
  obtain m1 where m1: "transformStep ext NodeType_EventSource rs utils m x = Inr m1"
    and rest: "forEachE (transformStep ext NodeType_EventSource rs utils) xs m1 = Inr m'"
    using Cons.prems(2)
    by (cases "transformStep ext NodeType_EventSource rs utils m x") simp_all
  note s = transformStep_inv[OF Cons.prems(1) m1]
  note ih = Cons.IH[OF conjunct1[OF s] rest]
  have "sinkUrisOf (modelNodes m') =
        sinkUrisOf (modelNodes m) \<union> {u. u \<noteq> [] \<and> (\<exists>r \<in> set (x # xs). specSinkUri r = Some u)}"
    using ih s by auto
  moreover have "modelEdges m' = modelEdges m @ concat (map (eventSourceEdges ext rs) (x # xs))"
    using ih s by simp
  ultimately show ?case using ih by blast
qed

lemma forEach_transform_total:
  assumes "rs ''deployments'' \<noteq> None" "rs ''configurations'' \<noteq> None" "rs ''revisions'' \<noteq> None"
    "rs ''ksservices'' \<noteq> None" "rs ''brokers'' \<noteq> None"
  shows "\<exists>m'. forEachE (transformStep ext NodeType_EventSource rs utils) xs m = Inr m'"
proof (induction xs arbitrary: m)
  case Nil
  then show ?case by simp
next
  case (Cons x xs)
  obtain m1 where "transformStep ext NodeType_EventSource rs utils m x = Inr m1"
    using transformStep_total[OF assms] by blast
  then show ?case using Cons.IH[of m1] by simp
qed

lemma filter_eq_le_one:
  "distinct (filter Q (map f xs)) \<Longrightarrow> Q v \<Longrightarrow> length (filter (\<lambda>x. f x = v) xs) \<le> 1"
proof (induction xs)
  case Nil
  then show ?case by simp
next
  case (Cons a xs)
  show ?case
  proof (cases "f a = v")
    case True
    then have "v \<notin> set (filter Q (map f xs))"
      using Cons.prems by auto
    then have "\<forall>x \<in> set xs. f x \<noteq> v"
      using Cons.prems(2) by auto
    then have "filter (\<lambda>x. f x = v) xs = []"
      by (simp add: filter_empty_conv)
    then show ?thesis using True by simp
  next
    case False
    then show ?thesis using Cons by (auto split: if_splits)
  qed
qed

lemma filter_eq_single:
  assumes "distinct (filter Q (map f xs))" "Q v" "v \<in> f ` set xs"
  shows "\<exists>n. filter (\<lambda>x. f x = v) xs = [n]"
proof -
  have "filter (\<lambda>x. f x = v) xs \<noteq> []"
    using assms(3) by (auto simp: filter_empty_conv)
  moreover have "length (filter (\<lambda>x. f x = v) xs) \<le> 1"
    by (rule filter_eq_le_one[OF assms(1,2)])
  ultimately show ?thesis
    by (cases "filter (\<lambda>x. f x = v) xs") (auto simp: Suc_le_eq)
qed

lemma sinkEdgeFor_edge:
  "specSinkUri res = Some u \<Longrightarrow> u \<noteq> [] \<Longrightarrow> truthy (uid (metadata res)) \<Longrightarrow>
   sinkEdgeFor res = [sinkUriEdge res u]"
  by (simp add: sinkEdgeFor_Some getSinkUriTopologyEdgeItems_def sinkUriEdge_def truthy_def)

lemma eventTopologyEdges_targets:
  "e \<in> set (eventTopologyEdges res d) \<Longrightarrow> \<exists>r \<in> set d. target e = uid (metadata r)"
  by (auto simp: eventTopologyEdges_def split: option.splits)

lemma channelEdges_targets:
  "e \<in> set (channelEdges ext rs res) \<Longrightarrow> \<exists>k d r. rs k = Some d \<and> r \<in> set d \<and> target e = uid (metadata r)"
  by (auto simp: channelEdges_def split: if_splits option.splits dest!: eventTopologyEdges_targets)
    (metis)

lemma eventSourceEdges_filter:
  assumes "\<forall>k d r. rs k = Some d \<and> r \<in> set d \<longrightarrow> uid (metadata r) \<noteq> Some t"
  shows "filter (\<lambda>e. target e = Some t) (eventSourceEdges ext rs res) =
         filter (\<lambda>e. target e = Some t) (sinkEdgeFor res)"
proof -
  have a: "filter (\<lambda>e. target e = Some t) (eventTopologyEdges res (orEmpty (rs k))) = []" for k
  proof (cases "rs k")
    case None
    then show ?thesis by (simp add: orEmpty_def eventTopologyEdges_def split: option.splits)
  next
    case (Some d)
    have "\<forall>e \<in> set (eventTopologyEdges res d). target e \<noteq> Some t"
      using assms Some by (metis eventTopologyEdges_targets)
    then show ?thesis by (simp add: Some orEmpty_def filter_empty_conv)
  qed
  have "\<forall>e \<in> set (channelEdges ext rs res). target e \<noteq> Some t"
    using assms by (metis channelEdges_targets)
  then have b: "filter (\<lambda>e. target e = Some t) (channelEdges ext rs res) = []"
    by (simp add: filter_empty_conv)
  show ?thesis
    by (simp add: eventSourceEdges_def a b)
qed

text \<open>
  C2. Assembling the graph of a list of event sources (on a snapshot that holds the
  deployments, configurations, revisions, Knative services and brokers, which the source
  dereferences unguarded) returns a graph in which a sink-uri node exists at most once
  per \<open>spec.sink.uri\<close> string. The nodes of type sink-uri are exactly the nodes that
  carry a \<open>sinkUri\<close>; each has the id \<open>encodeURIComponent(uri)\<close> and comes from an
  event source with that URI. Every event source with a non-empty URI finds exactly one
  such node in the graph, and, when it has a uid, contributes the edge of type
  \<open>event-source-link\<close> from itself to that node. So two event sources with
  \<open>spec.sink.uri = "http://x"\<close> yield exactly one sink-uri node and two edges that
  target it (no resource of the snapshot has the escaped URI as its uid).
\<close>

theorem transformKnNodeData_sink_uri_once:
  assumes "resources ''deployments'' \<noteq> None" and "resources ''configurations'' \<noteq> None"
    and "resources ''revisions'' \<noteq> None" and "resources ''ksservices'' \<noteq> None"
    and "resources ''brokers'' \<noteq> None"
  shows "\<exists>g. transformKnNodeData ext knResourcesData NodeType_EventSource resources utils = Inr g
    \<and> (\<forall>u. length (filter (\<lambda>n. nodeSinkUri n = Some u) (modelNodes g)) \<le> 1)
    \<and> (\<forall>n \<in> set (modelNodes g). (nodeType n = NodeType_SinkUri) = (nodeSinkUri n \<noteq> None))
    \<and> (\<forall>n \<in> set (modelNodes g). \<forall>u. nodeSinkUri n = Some u \<longrightarrow>
          u \<noteq> [] \<and> nodeId n = Some (encodeURIComponent u)
          \<and> (\<exists>res \<in> set knResourcesData. specSinkUri res = Some u))
    \<and> (\<forall>res \<in> set knResourcesData. \<forall>u. specSinkUri res = Some u \<and> u \<noteq> [] \<longrightarrow>
          (\<exists>n. filter (\<lambda>n. nodeSinkUri n = Some u) (modelNodes g) = [n]
               \<and> nodeId n = Some (encodeURIComponent u) \<and> nodeType n = NodeType_SinkUri)
          \<and> (truthy (uid (metadata res)) \<longrightarrow> sinkUriEdge res u \<in> set (modelEdges g)))
    \<and> (\<forall>a b. knResourcesData = [a, b]
          \<and> specSinkUri a = Some ''http://x'' \<and> specSinkUri b = Some ''http://x''
          \<and> truthy (uid (metadata a)) \<and> truthy (uid (metadata b))
          \<and> (\<forall>k d r. resources k = Some d \<and> r \<in> set d \<longrightarrow> uid (metadata r) \<noteq> Some ''http%3A%2F%2Fx'')
          \<longrightarrow> (\<exists>n. filter (\<lambda>n. nodeType n = NodeType_SinkUri) (modelNodes g) = [n]
                   \<and> nodeId n = Some ''http%3A%2F%2Fx'')
              \<and> filter (\<lambda>e. target e = Some ''http%3A%2F%2Fx'') (modelEdges g) =
                  [sinkUriEdge a ''http://x'', sinkUriEdge b ''http://x''])"
proof -
  let ?m0 = "\<lparr>modelNodes = [], modelEdges = []\<rparr>"
  obtain g where run0: "forEachE (transformStep ext NodeType_EventSource resources utils) knResourcesData ?m0 = Inr g"
    using forEach_transform_total[OF assms] by blast
  then have run: "transformKnNodeData ext knResourcesData NodeType_EventSource resources utils = Inr g"
    by (simp add: transformKnNodeData_def)
  have inv0: "sinkNodesInv (modelNodes ?m0)"
    by (simp add: sinkNodesInv_def)
  note fi = forEach_transform_inv[OF inv0 run0]
  have inv: "sinkNodesInv (modelNodes g)" using fi by blast
  have uris: "sinkUrisOf (modelNodes g) =
      {u. u \<noteq> [] \<and> (\<exists>r \<in> set knResourcesData. specSinkUri r = Some u)}"
    using fi by (simp add: sinkUrisOf_def)
  have edges: "modelEdges g = concat (map (eventSourceEdges ext resources) knResourcesData)"
    using fi by simp
  have dist: "distinct (filter (\<lambda>x. x \<noteq> None) (map nodeSinkUri (modelNodes g)))"
    and ok: "\<And>n. n \<in> set (modelNodes g) \<Longrightarrow> sinkOk n"
    using inv by (simp_all add: sinkNodesInv_def list_all_iff)
  have p1: "\<forall>u. length (filter (\<lambda>n. nodeSinkUri n = Some u) (modelNodes g)) \<le> 1"
    using filter_eq_le_one[OF dist] by simp
  have p2: "\<forall>n \<in> set (modelNodes g). (nodeType n = NodeType_SinkUri) = (nodeSinkUri n \<noteq> None)"
  proof
    fix n assume "n \<in> set (modelNodes g)"
    from ok[OF this] show "(nodeType n = NodeType_SinkUri) = (nodeSinkUri n \<noteq> None)"
      by (cases "nodeSinkUri n") (simp_all add: sinkOk_def)
  qed
  have p3: "\<forall>n \<in> set (modelNodes g). \<forall>u. nodeSinkUri n = Some u \<longrightarrow>
          u \<noteq> [] \<and> nodeId n = Some (encodeURIComponent u)
          \<and> (\<exists>res \<in> set knResourcesData. specSinkUri res = Some u)"
  proof (intro ballI allI impI)
    fix n u assume n: "n \<in> set (modelNodes g)" "nodeSinkUri n = Some u"
    from ok[OF n(1)] n(2) have a: "u \<noteq> []" "nodeId n = Some (encodeURIComponent u)"
      by (simp_all add: sinkOk_def)
    have "u \<in> sinkUrisOf (modelNodes g)"
      using n by (force simp: sinkUrisOf_def)
    then have "\<exists>res \<in> set knResourcesData. specSinkUri res = Some u"
      unfolding uris by simp
    with a show "u \<noteq> [] \<and> nodeId n = Some (encodeURIComponent u)
          \<and> (\<exists>res \<in> set knResourcesData. specSinkUri res = Some u)"
      by simp
  qed
  have one: "\<exists>n. filter (\<lambda>n. nodeSinkUri n = Some u) (modelNodes g) = [n]
               \<and> nodeId n = Some (encodeURIComponent u) \<and> nodeType n = NodeType_SinkUri"
    if r: "res \<in> set knResourcesData" "specSinkUri res = Some u" "u \<noteq> []" for res u
  proof -
    have "u \<in> sinkUrisOf (modelNodes g)"
      unfolding uris using r by blast
    then have "Some u \<in> nodeSinkUri ` set (modelNodes g)"
      by (simp add: sinkUrisOf_def)
    from filter_eq_single[OF dist _ this] obtain n where
      n: "filter (\<lambda>n. nodeSinkUri n = Some u) (modelNodes g) = [n]"
      by auto
    then have "n \<in> set (filter (\<lambda>n. nodeSinkUri n = Some u) (modelNodes g))"
      by simp
    then have "n \<in> set (modelNodes g)" "nodeSinkUri n = Some u"
      by simp_all
    with ok[of n] have "nodeId n = Some (encodeURIComponent u)" "nodeType n = NodeType_SinkUri"
      by (simp_all add: sinkOk_def)
    with n show ?thesis by blast
  qed
  have p4: "\<forall>res \<in> set knResourcesData. \<forall>u. specSinkUri res = Some u \<and> u \<noteq> [] \<longrightarrow>
          (\<exists>n. filter (\<lambda>n. nodeSinkUri n = Some u) (modelNodes g) = [n]
               \<and> nodeId n = Some (encodeURIComponent u) \<and> nodeType n = NodeType_SinkUri)
          \<and> (truthy (uid (metadata res)) \<longrightarrow> sinkUriEdge res u \<in> set (modelEdges g))"
  proof (intro ballI allI impI conjI)
    fix res u assume r: "res \<in> set knResourcesData" "specSinkUri res = Some u \<and> u \<noteq> []"
    show "\<exists>n. filter (\<lambda>n. nodeSinkUri n = Some u) (modelNodes g) = [n]
               \<and> nodeId n = Some (encodeURIComponent u) \<and> nodeType n = NodeType_SinkUri"
      using one[OF r(1)] r(2) by blast
    assume t: "truthy (uid (metadata res))"
    have "sinkUriEdge res u \<in> set (eventSourceEdges ext resources res)"
      using sinkEdgeFor_edge[of res u] r(2) t by (simp add: eventSourceEdges_def)
    then show "sinkUriEdge res u \<in> set (modelEdges g)"
      unfolding edges using r(1) by auto
  qed
  have p5: "\<forall>a b. knResourcesData = [a, b]
          \<and> specSinkUri a = Some ''http://x'' \<and> specSinkUri b = Some ''http://x''
          \<and> truthy (uid (metadata a)) \<and> truthy (uid (metadata b))
          \<and> (\<forall>k d r. resources k = Some d \<and> r \<in> set d \<longrightarrow> uid (metadata r) \<noteq> Some ''http%3A%2F%2Fx'')
          \<longrightarrow> (\<exists>n. filter (\<lambda>n. nodeType n = NodeType_SinkUri) (modelNodes g) = [n]
                   \<and> nodeId n = Some ''http%3A%2F%2Fx'')
              \<and> filter (\<lambda>e. target e = Some ''http%3A%2F%2Fx'') (modelEdges g) =
                  [sinkUriEdge a ''http://x'', sinkUriEdge b ''http://x'']"
  proof (intro allI impI)
    fix a b
    assume h: "knResourcesData = [a, b]
          \<and> specSinkUri a = Some ''http://x'' \<and> specSinkUri b = Some ''http://x''
          \<and> truthy (uid (metadata a)) \<and> truthy (uid (metadata b))
          \<and> (\<forall>k d r. resources k = Some d \<and> r \<in> set d \<longrightarrow> uid (metadata r) \<noteq> Some ''http%3A%2F%2Fx'')"
    then have l: "knResourcesData = [a, b]" and ua: "specSinkUri a = Some ''http://x''"
      and ub: "specSinkUri b = Some ''http://x''" and ta: "truthy (uid (metadata a))"
      and tb: "truthy (uid (metadata b))"
      and nc: "\<forall>k d r. resources k = Some d \<and> r \<in> set d \<longrightarrow> uid (metadata r) \<noteq> Some ''http%3A%2F%2Fx''"
      by blast+
    have ain: "a \<in> set knResourcesData" by (simp add: l)
    from one[OF ain ua] obtain n where
      n: "filter (\<lambda>n. nodeSinkUri n = Some ''http://x'') (modelNodes g) = [n]"
        "nodeId n = Some (encodeURIComponent ''http://x'')"
      by auto
    have only: "sinkUrisOf (modelNodes g) = {''http://x''}"
      unfolding uris l using ua ub by auto
    have "(nodeType k = NodeType_SinkUri) = (nodeSinkUri k = Some ''http://x'')"
      if k: "k \<in> set (modelNodes g)" for k
    proof (cases "nodeSinkUri k")
      case None
      then show ?thesis using ok[OF k] by (simp add: sinkOk_def)
    next
      case (Some v)
      then have "v \<in> sinkUrisOf (modelNodes g)"
        using k by (force simp: sinkUrisOf_def)
      then have "v = ''http://x''" unfolding only by simp
      then show ?thesis using ok[OF k] Some by (simp add: sinkOk_def)
    qed
    then have "filter (\<lambda>n. nodeType n = NodeType_SinkUri) (modelNodes g) =
        filter (\<lambda>n. nodeSinkUri n = Some ''http://x'') (modelNodes g)"
      by (intro filter_cong refl) simp
    then have nodes: "\<exists>n. filter (\<lambda>n. nodeType n = NodeType_SinkUri) (modelNodes g) = [n]
                   \<and> nodeId n = Some ''http%3A%2F%2Fx''"
      using n by (simp add: encode_example)
    have sa: "sinkEdgeFor a = [sinkUriEdge a ''http://x'']"
      by (rule sinkEdgeFor_edge[OF ua _ ta]) simp
    have sb: "sinkEdgeFor b = [sinkUriEdge b ''http://x'']"
      by (rule sinkEdgeFor_edge[OF ub _ tb]) simp
    have tg: "target (sinkUriEdge r ''http://x'') = Some ''http%3A%2F%2Fx''" for r
      by (simp add: sinkUriEdge_def encode_example)
    have "filter (\<lambda>e. target e = Some ''http%3A%2F%2Fx'') (modelEdges g) =
                  [sinkUriEdge a ''http://x'', sinkUriEdge b ''http://x'']"
      unfolding edges l
      by (simp add: eventSourceEdges_filter[OF nc] sa sb tg)
    with nodes show "(\<exists>n. filter (\<lambda>n. nodeType n = NodeType_SinkUri) (modelNodes g) = [n]
                   \<and> nodeId n = Some ''http%3A%2F%2Fx'')
              \<and> filter (\<lambda>e. target e = Some ''http%3A%2F%2Fx'') (modelEdges g) =
                  [sinkUriEdge a ''http://x'', sinkUriEdge b ''http://x'']"
      by blast
  qed
  show ?thesis
    using run p1 p2 p3 p4 p5 by blast
qed

theorem transformKnNodeData_sink_uri_once_witness:
  "\<exists>g. transformKnNodeData exampleShared
          [withSinkUri (exampleResource ''PingSource'' ''src-a'' ''ping-a'' []) ''http://x'',
           withSinkUri (exampleResource ''PingSource'' ''src-b'' ''ping-b'' []) ''http://x'']
          NodeType_EventSource exampleEventSnapshot None = Inr g
     \<and> map nodeId (filter (\<lambda>n. nodeType n = NodeType_SinkUri) (modelNodes g)) = [Some ''http%3A%2F%2Fx'']
     \<and> filter (\<lambda>e. target e = Some ''http%3A%2F%2Fx'') (modelEdges g) =
         [\<lparr>edgeId = ''src-a_http%3A%2F%2Fx'', edgeType = EdgeType_EventSource,
           source = Some ''src-a'', target = Some ''http%3A%2F%2Fx'', edgeData = None\<rparr>,
          \<lparr>edgeId = ''src-b_http%3A%2F%2Fx'', edgeType = EdgeType_EventSource,
           source = Some ''src-b'', target = Some ''http%3A%2F%2Fx'', edgeData = None\<rparr>]"
proof -
  let ?a = "withSinkUri (exampleResource ''PingSource'' ''src-a'' ''ping-a'' []) ''http://x''"
  let ?b = "withSinkUri (exampleResource ''PingSource'' ''src-b'' ''ping-b'' []) ''http://x''"
  have c: "exampleEventSnapshot ''deployments'' \<noteq> None"
    "exampleEventSnapshot ''configurations'' \<noteq> None"
    "exampleEventSnapshot ''revisions'' \<noteq> None"
    "exampleEventSnapshot ''ksservices'' \<noteq> None"
    "exampleEventSnapshot ''brokers'' \<noteq> None"
    by (simp_all add: exampleEventSnapshot_def)
  from transformKnNodeData_sink_uri_once[OF c, of exampleShared "[?a, ?b]" None]
  obtain g where
    run: "transformKnNodeData exampleShared [?a, ?b] NodeType_EventSource exampleEventSnapshot None = Inr g"
    and two: "\<forall>a b. [?a, ?b] = [a, b]
          \<and> specSinkUri a = Some ''http://x'' \<and> specSinkUri b = Some ''http://x''
          \<and> truthy (uid (metadata a)) \<and> truthy (uid (metadata b))
          \<and> (\<forall>k d r. exampleEventSnapshot k = Some d \<and> r \<in> set d \<longrightarrow>
                uid (metadata r) \<noteq> Some ''http%3A%2F%2Fx'')
          \<longrightarrow> (\<exists>n. filter (\<lambda>n. nodeType n = NodeType_SinkUri) (modelNodes g) = [n]
                   \<and> nodeId n = Some ''http%3A%2F%2Fx'')
              \<and> filter (\<lambda>e. target e = Some ''http%3A%2F%2Fx'') (modelEdges g) =
                  [sinkUriEdge a ''http://x'', sinkUriEdge b ''http://x'']"
    by blast
  have u: "specSinkUri ?a = Some ''http://x''" "specSinkUri ?b = Some ''http://x''"
    by (simp_all add: specSinkUri_def specSink_def withSinkUri_def emptySpec_def)
  have t: "truthy (uid (metadata ?a))" "truthy (uid (metadata ?b))"
    by (simp_all add: truthy_def withSinkUri_def example_defs)
  have nc: "\<forall>k d r. exampleEventSnapshot k = Some d \<and> r \<in> set d \<longrightarrow>
                uid (metadata r) \<noteq> Some ''http%3A%2F%2Fx''"
    by (auto simp: exampleEventSnapshot_def example_defs split: if_splits)
  from two[rule_format, of ?a ?b] u t nc
  have r: "(\<exists>n. filter (\<lambda>n. nodeType n = NodeType_SinkUri) (modelNodes g) = [n]
                   \<and> nodeId n = Some ''http%3A%2F%2Fx'')"
    "filter (\<lambda>e. target e = Some ''http%3A%2F%2Fx'') (modelEdges g) =
                  [sinkUriEdge ?a ''http://x'', sinkUriEdge ?b ''http://x'']"
    by blast+
  have e: "sinkUriEdge ?a ''http://x'' =
      \<lparr>edgeId = ''src-a_http%3A%2F%2Fx'', edgeType = EdgeType_EventSource,
           source = Some ''src-a'', target = Some ''http%3A%2F%2Fx'', edgeData = None\<rparr>"
    "sinkUriEdge ?b ''http://x'' =
      \<lparr>edgeId = ''src-b_http%3A%2F%2Fx'', edgeType = EdgeType_EventSource,
           source = Some ''src-b'', target = Some ''http%3A%2F%2Fx'', edgeData = None\<rparr>"
    by (simp_all add: sinkUriEdge_def encode_example withSinkUri_def example_defs interpolate_def)
  from r(1) have "map nodeId (filter (\<lambda>n. nodeType n = NodeType_SinkUri) (modelNodes g))
      = [Some ''http%3A%2F%2Fx'']"
    by auto
  with run r(2) e show ?thesis by auto
qed

end
